theory Spec2Isabelle
  imports Complex_Main
begin

section \<open>The completion retry engine (src/server/tasks/queryModel.task.ts)\<close>

subsection \<open>Data\<close>

text \<open>
  The four values of a cell's \<^verbatim>\<open>retrievalStatus\<close> column.
\<close>

datatype CellRetrievalStatus = PENDING | IN_PROGRESS | COMPLETE | ERROR

text \<open>
  A row of \<^verbatim>\<open>scenarioVariantCell\<close>, restricted to the columns the task reads or writes.
  The row's id is the key under which the row is stored. Nullable columns are options;
  \<^verbatim>\<open>retryTime\<close> is a date, held as its time value (integer milliseconds).
\<close>

record ScenarioVariantCell =
  promptVariantId :: string
  testScenarioId :: string
  retrievalStatus :: CellRetrievalStatus
  statusCode :: "int option"
  errorMessage :: "string option"
  retryTime :: "int option"

record PromptVariant =
  constructFn :: string
  experimentId :: string

record TestScenario =
  variableValues :: string

record Prompt =
  modelProvider :: string
  modelInput :: string

record ModelOutput =
  scenarioVariantCellId :: string
  inputHash :: string
  outputValue :: string
  timeToComplete :: int
  promptTokens :: "int option"
  completionTokens :: "int option"
  cost :: "real option"

text \<open>
  What \<^verbatim>\<open>provider.getCompletion\<close> resolves to: \<^verbatim>\<open>{type: "success", value, timeToComplete,
  promptTokens, completionTokens, cost, statusCode}\<close> or
  \<^verbatim>\<open>{type: "error", message, statusCode, autoRetry}\<close>.
\<close>

datatype CompletionResponse =
    Success string int "int option" "int option" "real option" int
  | Failure string int bool

record QueryModelJob =
  cellId :: string
  stream :: bool

text \<open>
  The \<^verbatim>\<open>data\<close> object of a \<^verbatim>\<open>prisma.scenarioVariantCell.update\<close>: a key that is absent
  (\<open>None\<close>) leaves the column as it is, a key that is present is written, and for a
  nullable column the value written may be \<^verbatim>\<open>null\<close> (\<open>Some None\<close>).
\<close>

record CellUpdateData =
  set_statusCode :: "int option option"
  set_errorMessage :: "string option option"
  set_retryTime :: "int option option"
  set_retrievalStatus :: "CellRetrievalStatus option"

text \<open>
  The effects of the task, in the order they happen: a call of the provider (with the loop
  index of the call), a cell update that went through, the creation of a model output,
  the call of \<^verbatim>\<open>runEvalsForOutput\<close> and a \<^verbatim>\<open>sleep\<close>.
\<close>

datatype Event =
    ProviderCall nat
  | CellUpdate string CellUpdateData
  | ModelOutputCreate ModelOutput
  | RunEvals string
  | Sleep real

text \<open>
  The tables the task touches and the trace of its effects.
\<close>

record World =
  cells :: "string \<rightharpoonup> ScenarioVariantCell"
  promptVariants :: "string \<rightharpoonup> PromptVariant"
  testScenarios :: "string \<rightharpoonup> TestScenario"
  modelOutputs :: "ModelOutput list"
  trace :: "Event list"

text \<open>
  The collaborators of the task that are not in the file: \<^verbatim>\<open>parseConstructFn\<close> (\<open>Inl\<close> is
  its \<^verbatim>\<open>{error}\<close> result), the provider's \<^verbatim>\<open>getCompletion\<close> (its answer may depend on the
  prompt, on whether a stream callback was passed and on which call of the run it is),
  \<^verbatim>\<open>hashPrompt\<close>, and the two impure primitives: \<^verbatim>\<open>Math.random()\<close> and \<^verbatim>\<open>Date.now()\<close> as
  sampled in loop iteration \<open>i\<close>.
\<close>

record Env =
  parseConstructFn :: "string \<Rightarrow> string \<Rightarrow> string + Prompt"
  getCompletion :: "Prompt \<Rightarrow> bool \<Rightarrow> nat \<Rightarrow> CompletionResponse"
  hashPrompt :: "Prompt \<Rightarrow> string"
  mathRandom :: "nat \<Rightarrow> real"
  dateNow :: "nat \<Rightarrow> int"

text \<open>
  \<^verbatim>\<open>prisma.update\<close> rejects when no row has the id; the task does not catch it.
\<close>

datatype TaskError = RecordNotFound

subsection \<open>Constants and the delay\<close>

definition MAX_AUTO_RETRIES :: nat where
  "MAX_AUTO_RETRIES = 10"

definition MIN_DELAY :: real where
  "MIN_DELAY = 500"

definition MAX_DELAY :: real where
  "MAX_DELAY = 15000"

text \<open>
  A JavaScript number is an IEEE 754 double, and every arithmetic operation returns the
  double nearest to the exact result, a tie going to the one with the even significand.

  \<open>spacing k x\<close> is the distance between neighbouring doubles around \<open>x\<close>, searched from
  the binade \<open>[2^(k-1022), 2^(k-1021))\<close> downwards: in that binade it is \<open>2^(k-1074)\<close>, and
  below \<open>2^(-1022)\<close> (the subnormal numbers) it stays \<open>2^(-1074)\<close>. The largest binade of
  finite doubles is the one with \<open>k = 2045\<close>.
\<close>

primrec spacing :: "nat \<Rightarrow> real \<Rightarrow> real" where
  "spacing 0 x = 2 powi (- 1074)"
| "spacing (Suc k) x =
     (if 2 powi (int (Suc k) - 1022) \<le> \<bar>x\<bar> then 2 powi (int (Suc k) - 1074)
      else spacing k x)"

definition ulp :: "real \<Rightarrow> real" where
  "ulp x = spacing 2045 x"

definition roundHalfEven :: "real \<Rightarrow> int" where
  "roundHalfEven y =
     (let f = \<lfloor>y\<rfloor>; d = y - of_int f
      in if d < 1 / 2 then f else if 1 / 2 < d then f + 1 else if even f then f else f + 1)"

text \<open>
  The double nearest to a real, as long as the result is finite.
\<close>

definition toDouble :: "real \<Rightarrow> real" where
  "toDouble x = of_int (roundHalfEven (x / ulp x)) * ulp x"

text \<open>
  A number that may have overflowed. The task computes with positive numbers only, so the
  one infinity is the positive one.
\<close>

datatype Number = Finite real | Infinity

definition toNumber :: "real \<Rightarrow> Number" where
  "toNumber x = (if 2 ^ 1024 \<le> toDouble x then Infinity else Finite (toDouble x))"

text \<open>
  \<^verbatim>\<open>Math.pow(2, n)\<close>, the product \<^verbatim>\<open>a * b\<close> of positive numbers and \<^verbatim>\<open>Math.min(a, b)\<close> with
  \<open>a\<close> finite.
\<close>

definition jsPow2 :: "nat \<Rightarrow> Number" where
  "jsPow2 n = toNumber (2 ^ n)"

fun jsTimes :: "Number \<Rightarrow> Number \<Rightarrow> Number" where
  "jsTimes (Finite a) (Finite b) = toNumber (a * b)"
| "jsTimes _ _ = Infinity"

fun jsMin :: "real \<Rightarrow> Number \<Rightarrow> real" where
  "jsMin a (Finite b) = min a b"
| "jsMin a Infinity = a"

text \<open>
  \<^verbatim>\<open>calculateDelay\<close>; the value of \<^verbatim>\<open>Math.random()\<close> is the second argument. The base delay
  is at most \<^verbatim>\<open>MAX_DELAY\<close> and the sample is below 1, so the product and the sum are far from
  overflow and are rounded as finite numbers.
\<close>

definition calculateDelay :: "nat \<Rightarrow> real \<Rightarrow> real" where
  "calculateDelay numPreviousTries rnd =
     (let baseDelay = jsMin MAX_DELAY (jsTimes (Finite MIN_DELAY) (jsPow2 numPreviousTries));
          jitter = toDouble (rnd * baseDelay)
      in toDouble (baseDelay + jitter))"

text \<open>
  \<^verbatim>\<open>new Date(t)\<close> keeps the integer part of \<open>t\<close> (rounded towards zero). A date has a
  bounded range of time values; instants outside of it are not modelled.
\<close>

definition newDate :: "real \<Rightarrow> int" where
  "newDate t = (if 0 \<le> t then \<lfloor>t\<rfloor> else \<lceil>t\<rceil>)"

subsection \<open>Database updates\<close>

definition applyData :: "CellUpdateData \<Rightarrow> ScenarioVariantCell \<Rightarrow> ScenarioVariantCell" where
  "applyData d c =
     c\<lparr> statusCode := (case set_statusCode d of None \<Rightarrow> statusCode c | Some v \<Rightarrow> v),
        errorMessage := (case set_errorMessage d of None \<Rightarrow> errorMessage c | Some v \<Rightarrow> v),
        retryTime := (case set_retryTime d of None \<Rightarrow> retryTime c | Some v \<Rightarrow> v),
        retrievalStatus :=
          (case set_retrievalStatus d of None \<Rightarrow> retrievalStatus c | Some v \<Rightarrow> v) \<rparr>"

definition updateCell :: "string \<Rightarrow> CellUpdateData \<Rightarrow> World \<Rightarrow> TaskError + World" where
  "updateCell cid d w =
     (case cells w cid of
        None \<Rightarrow> Inl RecordNotFound
      | Some c \<Rightarrow>
          Inr (w\<lparr> cells := (cells w)(cid \<mapsto> applyData d c),
                  trace := trace w @ [CellUpdate cid d] \<rparr>))"

definition createModelOutput :: "ModelOutput \<Rightarrow> World \<Rightarrow> World" where
  "createModelOutput mo w =
     w\<lparr> modelOutputs := modelOutputs w @ [mo], trace := trace w @ [ModelOutputCreate mo] \<rparr>"

definition emit :: "Event \<Rightarrow> World \<Rightarrow> World" where
  "emit e w = w\<lparr> trace := trace w @ [e] \<rparr>"

subsection \<open>The task\<close>

text \<open>
  The loop \<^verbatim>\<open>for (let i = 0; true; i++)\<close>, entered at index \<open>i\<close>. The sum
  \<^verbatim>\<open>Date.now() + delay\<close> is a sum of doubles.
\<close>

function retryLoop ::
  "Env \<Rightarrow> string \<Rightarrow> bool \<Rightarrow> PromptVariant \<Rightarrow> TestScenario \<Rightarrow> Prompt \<Rightarrow> nat \<Rightarrow> World
     \<Rightarrow> TaskError + World" where
  "retryLoop env cid strm variant scenario prompt i w =
     (case getCompletion env prompt strm i of
        Success val ttc ptok ctok cst code \<Rightarrow>
          (let inputHash = hashPrompt env prompt;
               modelOutput = \<lparr> scenarioVariantCellId = cid, inputHash = inputHash,
                               outputValue = val, timeToComplete = ttc, promptTokens = ptok,
                               completionTokens = ctok, cost = cst \<rparr>;
               w1 = createModelOutput modelOutput (emit (ProviderCall i) w)
           in case updateCell cid
                     \<lparr> set_statusCode = Some (Some code), set_errorMessage = None,
                       set_retryTime = None, set_retrievalStatus = Some COMPLETE \<rparr> w1 of
                Inl e \<Rightarrow> Inl e
              | Inr w2 \<Rightarrow> Inr (emit (RunEvals (experimentId variant)) w2))
      | Failure msg code autoRetry \<Rightarrow>
          (let delay = calculateDelay i (mathRandom env i)
           in case updateCell cid
                     \<lparr> set_statusCode = Some (Some code), set_errorMessage = Some (Some msg),
                       set_retryTime =
                         Some (if autoRetry \<and> i < MAX_AUTO_RETRIES
                               then Some (newDate (toDouble (real_of_int (dateNow env i) + delay)))
                               else None),
                       set_retrievalStatus = Some ERROR \<rparr>
                     (emit (ProviderCall i) w) of
                Inl e \<Rightarrow> Inl e
              | Inr w2 \<Rightarrow>
                  if autoRetry \<and> i < MAX_AUTO_RETRIES
                  then retryLoop env cid strm variant scenario prompt (Suc i)
                         (emit (Sleep delay) w2)
                  else Inr w2))"
  by pat_completeness auto
termination
  by (relation "measure (\<lambda>(env, cid, strm, variant, scenario, prompt, i, w). Suc MAX_AUTO_RETRIES - i)")
     auto

declare retryLoop.simps [simp del]

definition queryModel :: "Env \<Rightarrow> QueryModelJob \<Rightarrow> World \<Rightarrow> TaskError + World" where
  "queryModel env task w =
     (case cells w (cellId task) of
        None \<Rightarrow>
          updateCell (cellId task)
            \<lparr> set_statusCode = Some (Some 404), set_errorMessage = Some (Some ''Cell not found''),
              set_retryTime = None, set_retrievalStatus = Some ERROR \<rparr> w
      | Some cell \<Rightarrow>
          if retrievalStatus cell \<noteq> PENDING then Inr w
          else
            (case updateCell (cellId task)
                    \<lparr> set_statusCode = None, set_errorMessage = None,
                      set_retryTime = None, set_retrievalStatus = Some IN_PROGRESS \<rparr> w of
               Inl e \<Rightarrow> Inl e
             | Inr w1 \<Rightarrow>
                 (case promptVariants w1 (promptVariantId cell) of
                    None \<Rightarrow>
                      updateCell (cellId task)
                        \<lparr> set_statusCode = Some (Some 404),
                          set_errorMessage = Some (Some ''Prompt Variant not found''),
                          set_retryTime = None, set_retrievalStatus = Some ERROR \<rparr> w1
                  | Some variant \<Rightarrow>
                      (case testScenarios w1 (testScenarioId cell) of
                         None \<Rightarrow>
                           updateCell (cellId task)
                             \<lparr> set_statusCode = Some (Some 404),
                               set_errorMessage = Some (Some ''Scenario not found''),
                               set_retryTime = None, set_retrievalStatus = Some ERROR \<rparr> w1
                       | Some scenario \<Rightarrow>
                           (case parseConstructFn env (constructFn variant)
                                   (variableValues scenario) of
                              Inl err \<Rightarrow>
                                updateCell (cellId task)
                                  \<lparr> set_statusCode = Some (Some 400),
                                    set_errorMessage = Some (Some err),
                                    set_retryTime = None, set_retrievalStatus = Some ERROR \<rparr> w1
                            | Inr prompt \<Rightarrow>
                                retryLoop env (cellId task) (stream task) variant scenario
                                  prompt 0 w1)))))"

text \<open>
  \<^verbatim>\<open>queueQueryModel\<close>: the cell goes back to PENDING with its error message cleared, and
  the job is enqueued and run. (The update and the enqueue are started together; here the
  update is taken to land before the job runs.)
\<close>

definition queueQueryModel :: "Env \<Rightarrow> string \<Rightarrow> bool \<Rightarrow> World \<Rightarrow> TaskError + World" where
  "queueQueryModel env cid strm w =
     (case updateCell cid
             \<lparr> set_statusCode = None, set_errorMessage = Some None,
               set_retryTime = None, set_retrievalStatus = Some PENDING \<rparr> w of
        Inl e \<Rightarrow> Inl e
      | Inr w1 \<Rightarrow> queryModel env \<lparr> cellId = cid, stream = strm \<rparr> w1)"

text \<open>The number of provider calls in a trace.\<close>

fun isProviderCall :: "Event \<Rightarrow> bool" where
  "isProviderCall (ProviderCall _) = True"
| "isProviderCall _ = False"

definition providerCalls :: "Event list \<Rightarrow> nat" where
  "providerCalls tr = length (filter isProviderCall tr)"

section \<open>Node processing: cache propagation and the LLMRelabel kind\<close>

subsection \<open>Data\<close>

text \<open>
  The status of a node entry; the constructors carry a prefix because \<open>PENDING\<close> and
  \<open>ERROR\<close> are already statuses of a cell.
\<close>

datatype NodeEntryStatus = NE_PENDING | NE_PROCESSING | NE_PROCESSED | NE_ERROR

datatype DatasetEntrySplit = TRAIN | TEST

text \<open>
  A row of \<^verbatim>\<open>NodeEntry\<close> and a row of \<^verbatim>\<open>CachedProcessedEntry\<close>, with the columns the two
  statements below name. The table declarations are not part of the sources at hand: every
  column of the cache table is taken as nullable, and so is every column of \<^verbatim>\<open>NodeEntry\<close>
  that the cache statement assigns from one of them (no NOT NULL constraint is modelled).
\<close>

record NodeEntry =
  ne_id :: string
  ne_nodeId :: string
  ne_persistentId :: string
  ne_status :: NodeEntryStatus
  ne_inputHash :: "string option"
  ne_outputHash :: "string option"
  ne_originalOutputHash :: "string option"
  ne_split :: "DatasetEntrySplit option"

record CachedProcessedEntry =
  cpne_nodeHash :: "string option"
  cpne_nodeId :: "string option"
  cpne_nodeEntryPersistentId :: "string option"
  cpne_incomingInputHash :: "string option"
  cpne_incomingOutputHash :: "string option"
  cpne_outgoingInputHash :: "string option"
  cpne_outgoingOutputHash :: "string option"
  cpne_outgoingSplit :: "DatasetEntrySplit option"

datatype CacheMatchField = NodeEntryPersistentId | IncomingInputHash | IncomingOutputHash

datatype CacheWriteField = OutgoingInputHash | OutgoingOutputHash | OutgoingSplit

text \<open>
  The part of a kind's \<^verbatim>\<open>NodeProperties\<close> object that \<^verbatim>\<open>updateCached\<close> reads. Both cache
  fields are optional keys: \<open>None\<close> is a key the kind does not declare.
\<close>

record NodeProperties =
  cacheMatchFields :: "CacheMatchField list option"
  cacheWriteFields :: "CacheWriteField list option"
  readBatchSize :: nat

text \<open>
  A node (\<^verbatim>\<open>id\<close>, \<^verbatim>\<open>projectId\<close>, \<^verbatim>\<open>hash\<close>, \<^verbatim>\<open>type\<close>); a typed node adds its \<^verbatim>\<open>config\<close>.
\<close>

record Node =
  node_id :: string
  node_projectId :: string
  node_hash :: string
  node_type :: string

text \<open>
  \<^verbatim>\<open>RelabelOption\<close> is declared outside the sources at hand: one of its values is
  \<^verbatim>\<open>SkipRelabel\<close>, every other one is the name of a model.
\<close>

datatype RelabelOption = SkipRelabel | RelabelModel string

record LLMRelabelNode = Node +
  relabelLLM :: RelabelOption
  maxLLMConcurrency :: nat

text \<open>
  The two tables, and the number of SQL statements executed so far.
\<close>

record PipelineDb =
  nodeEntries :: "NodeEntry list"
  cachedProcessedEntries :: "CachedProcessedEntry list"
  executed :: nat

subsection \<open>updateCached\<close>

text \<open>
  SQL's \<open>=\<close> as a WHERE condition: a comparison with NULL is not true.
\<close>

fun sqlEq :: "'a option \<Rightarrow> 'a option \<Rightarrow> bool" where
  "sqlEq (Some x) (Some y) = (x = y)"
| "sqlEq _ _ = False"

text \<open>
  The WHERE clause of the statement, for one row \<open>ne\<close> of \<^verbatim>\<open>NodeEntry\<close> and one row \<open>cpne\<close>
  of \<^verbatim>\<open>CachedProcessedEntry\<close>. The clause has no negation, so reading an unknown comparison
  as false selects the same rows as SQL's three-valued logic.
\<close>

definition cacheWhere ::
  "CacheMatchField list \<Rightarrow> 'a Node_scheme \<Rightarrow> NodeEntry \<Rightarrow> CachedProcessedEntry \<Rightarrow> bool" where
  "cacheWhere matchFields node ne cpne =
     ((sqlEq (cpne_nodeHash cpne) (Some (node_hash node))
        \<or> sqlEq (cpne_nodeId cpne) (Some (node_id node)))
      \<and> ne_nodeId ne = node_id node
      \<and> ne_status ne = NE_PENDING
      \<and> (NodeEntryPersistentId \<in> set matchFields
           \<longrightarrow> sqlEq (Some (ne_persistentId ne)) (cpne_nodeEntryPersistentId cpne))
      \<and> (IncomingInputHash \<in> set matchFields
           \<longrightarrow> sqlEq (ne_inputHash ne) (cpne_incomingInputHash cpne))
      \<and> (IncomingOutputHash \<in> set matchFields
           \<longrightarrow> sqlEq (ne_outputHash ne) (cpne_incomingOutputHash cpne)))"

text \<open>
  The SET clause: the right-hand sides read the row as it was before the statement.
\<close>

definition cacheSet :: "CacheWriteField list \<Rightarrow> CachedProcessedEntry \<Rightarrow> NodeEntry \<Rightarrow> NodeEntry" where
  "cacheSet writeFields cpne ne =
     ne\<lparr> ne_status := NE_PROCESSED,
         ne_inputHash :=
           (if OutgoingInputHash \<in> set writeFields then cpne_outgoingInputHash cpne
            else ne_inputHash ne),
         ne_outputHash :=
           (if OutgoingOutputHash \<in> set writeFields then cpne_outgoingOutputHash cpne
            else ne_outputHash ne),
         ne_originalOutputHash :=
           (if OutgoingOutputHash \<in> set writeFields then ne_outputHash ne
            else ne_originalOutputHash ne),
         ne_split :=
           (if OutgoingSplit \<in> set writeFields then cpne_outgoingSplit cpne
            else ne_split ne) \<rparr>"

text \<open>
  \<^verbatim>\<open>updateCached\<close>. The registry \<^verbatim>\<open>nodePropertiesByType\<close> lives in another file and is an
  argument. In \<^verbatim>\<open>UPDATE ... FROM\<close> a row of the target that joins with several rows of the
  other table is updated once, from one of them; the database does not say which. The cache
  table is a list in the order in which the join meets its rows, and the first row that
  satisfies the WHERE clause is the one used.
\<close>

definition updateCached ::
  "(string \<Rightarrow> NodeProperties) \<Rightarrow> 'a Node_scheme \<Rightarrow> PipelineDb \<Rightarrow> PipelineDb" where
  "updateCached nodePropertiesByType node db =
     (let nodeProperties = nodePropertiesByType (node_type node)
      in case cacheMatchFields nodeProperties of
           None \<Rightarrow> db
         | Some matchFields \<Rightarrow>
             (case cacheWriteFields nodeProperties of
                None \<Rightarrow> db
              | Some writeFields \<Rightarrow>
                  db\<lparr> nodeEntries :=
                        map (\<lambda>ne. case find (cacheWhere matchFields node ne)
                                         (cachedProcessedEntries db) of
                                    None \<Rightarrow> ne
                                  | Some cpne \<Rightarrow> cacheSet writeFields cpne ne)
                            (nodeEntries db),
                      executed := Suc (executed db) \<rparr>))"

subsection \<open>llmRelabelProperties\<close>

definition llmRelabelProperties :: NodeProperties where
  "llmRelabelProperties =
     \<lparr> cacheMatchFields = Some [IncomingInputHash],
       cacheWriteFields = Some [OutgoingOutputHash],
       readBatchSize = 50 \<rparr>"

definition getConcurrency :: "LLMRelabelNode \<Rightarrow> nat" where
  "getConcurrency node = maxLLMConcurrency node"

text \<open>
  \<^verbatim>\<open>beforeProcessing\<close>: one \<^verbatim>\<open>updateMany\<close> when the node skips relabeling, nothing otherwise.
\<close>

definition beforeProcessing :: "LLMRelabelNode \<Rightarrow> PipelineDb \<Rightarrow> PipelineDb" where
  "beforeProcessing node db =
     (if relabelLLM node = SkipRelabel
      then db\<lparr> nodeEntries :=
                 map (\<lambda>ne. if ne_nodeId ne = node_id node \<and> ne_status ne = NE_PENDING
                            then ne\<lparr> ne_status := NE_PROCESSED \<rparr> else ne)
                     (nodeEntries db),
               executed := Suc (executed db) \<rparr>
      else db)"

text \<open>
  What the \<^verbatim>\<open>try\<close> block of \<^verbatim>\<open>processEntry\<close> can throw: an \<^verbatim>\<open>APIError\<close> (with its optional
  \<^verbatim>\<open>status\<close>) or any other error; \<^verbatim>\<open>message\<close> may be missing.
\<close>

datatype JsError = APIError "int option" "string option" | OtherError "string option"

record Choice =
  choice_message :: "string option"

record ChatCompletion =
  choices :: "Choice list"

record CompletionRequest =
  req_model :: string
  req_messages :: string
  req_tool_choice :: "string option"
  req_tools :: "string option"
  req_response_format :: "string option"

record RelabelEntry =
  entry_id :: string
  entry_messages :: string
  entry_tool_choice :: "string option"
  entry_tools :: "string option"
  entry_response_format :: "string option"
  entry_output :: string

text \<open>
  The three object literals \<^verbatim>\<open>processEntry\<close> returns; a key a literal does not have is
  \<open>None\<close>.
\<close>

record ProcessEntryResult =
  res_nodeEntryId :: "string option"
  res_status :: NodeEntryStatus
  res_output :: "string option"
  res_error :: "string option"

text \<open>
  The body of the \<^verbatim>\<open>try\<close> block: the completion message, or what was thrown.
  \<^verbatim>\<open>getOpenaiCompletion\<close> is an argument (\<open>Inl\<close> is a rejection).
\<close>

definition completionMessageOf ::
  "(string \<Rightarrow> CompletionRequest \<Rightarrow> JsError + ChatCompletion) \<Rightarrow> LLMRelabelNode \<Rightarrow> RelabelEntry
     \<Rightarrow> JsError + string" where
  "completionMessageOf getOpenaiCompletion node entry =
     (case relabelLLM node of
        SkipRelabel \<Rightarrow> Inr (entry_output entry)
      | RelabelModel m \<Rightarrow>
          (case getOpenaiCompletion (node_projectId node)
                  \<lparr> req_model = m, req_messages = entry_messages entry,
                    req_tool_choice = entry_tool_choice entry,
                    req_tools = entry_tools entry,
                    req_response_format = entry_response_format entry \<rparr> of
             Inl e \<Rightarrow> Inl e
           | Inr completion \<Rightarrow>
               (case (case choices completion of [] \<Rightarrow> None | c # _ \<Rightarrow> choice_message c) of
                  None \<Rightarrow> Inl (OtherError (Some ''No completion returned''))
                | Some completionMessage \<Rightarrow> Inr completionMessage)))"

definition processEntry ::
  "(string \<Rightarrow> CompletionRequest \<Rightarrow> JsError + ChatCompletion) \<Rightarrow> LLMRelabelNode \<Rightarrow> RelabelEntry
     \<Rightarrow> ProcessEntryResult" where
  "processEntry getOpenaiCompletion node entry =
     (case completionMessageOf getOpenaiCompletion node entry of
        Inr completionMessage \<Rightarrow>
          \<lparr> res_nodeEntryId = None, res_status = NE_PROCESSED,
            res_output = Some completionMessage, res_error = None \<rparr>
      | Inl (APIError st msg) \<Rightarrow>
          if st = Some 429
          then \<lparr> res_nodeEntryId = None, res_status = NE_PENDING, res_output = None,
                 res_error = Some (case msg of None \<Rightarrow> ''Rate limited'' | Some m \<Rightarrow> m) \<rparr>
          else \<lparr> res_nodeEntryId = Some (entry_id entry), res_status = NE_ERROR,
                 res_output = None,
                 res_error = Some (case msg of None \<Rightarrow> ''Unknown error'' | Some m \<Rightarrow> m) \<rparr>
      | Inl (OtherError msg) \<Rightarrow>
          \<lparr> res_nodeEntryId = Some (entry_id entry), res_status = NE_ERROR,
            res_output = None,
            res_error = Some (case msg of None \<Rightarrow> ''Unknown error'' | Some m \<Rightarrow> m) \<rparr>)"

section \<open>Observations and example inputs\<close>

subsection \<open>Reading a result\<close>

text \<open>
  The trace and a cell of the world a task returned; a task that threw shows no trace and
  no cell.
\<close>

definition finalTrace :: "TaskError + World \<Rightarrow> Event list" where
  "finalTrace r = (case r of Inl e \<Rightarrow> [] | Inr w \<Rightarrow> trace w)"

definition finalCell :: "string \<Rightarrow> TaskError + World \<Rightarrow> ScenarioVariantCell option" where
  "finalCell cid r = (case r of Inl e \<Rightarrow> None | Inr w \<Rightarrow> cells w cid)"

text \<open>
  The conditions that \<open>cacheWhere\<close> puts on the row of the cache table, each comparison
  written as an equality between values that are not NULL. It is used to state and prove the
  lemmas on \<open>updateCached\<close>; \<open>cacheWhere_explicit\<close> relates it to the WHERE clause.
\<close>

definition explicitMatch ::
  "CacheMatchField list \<Rightarrow> 'a Node_scheme \<Rightarrow> NodeEntry \<Rightarrow> CachedProcessedEntry \<Rightarrow> bool" where
  "explicitMatch matchFields node ne cpne =
     ((cpne_nodeHash cpne = Some (node_hash node) \<or> cpne_nodeId cpne = Some (node_id node))
      \<and> (NodeEntryPersistentId \<in> set matchFields
            \<longrightarrow> cpne_nodeEntryPersistentId cpne = Some (ne_persistentId ne))
      \<and> (IncomingInputHash \<in> set matchFields
            \<longrightarrow> ne_inputHash ne \<noteq> None \<and> cpne_incomingInputHash cpne = ne_inputHash ne)
      \<and> (IncomingOutputHash \<in> set matchFields
            \<longrightarrow> ne_outputHash ne \<noteq> None \<and> cpne_incomingOutputHash cpne = ne_outputHash ne))"

subsection \<open>A cell and its providers\<close>

text \<open>
  A cell \<^verbatim>\<open>c1\<close> in status PENDING with its prompt variant and test scenario, a job for it,
  and providers: one that fails \<open>n\<close> times with \<^verbatim>\<open>autoRetry\<close> set and then succeeds, one
  that always fails with \<^verbatim>\<open>autoRetry\<close> set, and one that fails without it.
  \<^verbatim>\<open>Math.random()\<close> gives 0.5 and the clock stands at 1000 ms.
\<close>

definition example_cell :: ScenarioVariantCell where
  "example_cell =
     \<lparr> promptVariantId = ''v1'', testScenarioId = ''s1'', retrievalStatus = PENDING,
       statusCode = None, errorMessage = None, retryTime = None \<rparr>"

definition example_variant :: PromptVariant where
  "example_variant = \<lparr> constructFn = ''fn'', experimentId = ''e1'' \<rparr>"

definition example_scenario :: TestScenario where
  "example_scenario = \<lparr> variableValues = ''vars'' \<rparr>"

definition example_world :: World where
  "example_world =
     \<lparr> cells = [''c1'' \<mapsto> example_cell],
       promptVariants = [''v1'' \<mapsto> example_variant],
       testScenarios = [''s1'' \<mapsto> example_scenario],
       modelOutputs = [],
       trace = [] \<rparr>"

definition example_job :: QueryModelJob where
  "example_job = \<lparr> cellId = ''c1'', stream = False \<rparr>"

definition example_prompt :: Prompt where
  "example_prompt = \<lparr> modelProvider = ''openai'', modelInput = ''in'' \<rparr>"

definition failuresThenSuccess :: "nat \<Rightarrow> Env" where
  "failuresThenSuccess n =
     \<lparr> parseConstructFn = (\<lambda>fn vars. Inr example_prompt),
       getCompletion = (\<lambda>p s k. if k < n then Failure ''Rate limited'' 429 True
                                  else Success ''out'' 100 None None None 200),
       hashPrompt = (\<lambda>p. ''h''),
       mathRandom = (\<lambda>k. 1 / 2),
       dateNow = (\<lambda>k. 1000) \<rparr>"

definition alwaysRetryable :: Env where
  "alwaysRetryable =
     \<lparr> parseConstructFn = (\<lambda>fn vars. Inr example_prompt),
       getCompletion = (\<lambda>p s k. Failure ''Rate limited'' 429 True),
       hashPrompt = (\<lambda>p. ''h''),
       mathRandom = (\<lambda>k. 1 / 2),
       dateNow = (\<lambda>k. 1000) \<rparr>"

definition notRetryable :: Env where
  "notRetryable =
     \<lparr> parseConstructFn = (\<lambda>fn vars. Inr example_prompt),
       getCompletion = (\<lambda>p s k. Failure ''Bad request'' 400 False),
       hashPrompt = (\<lambda>p. ''h''),
       mathRandom = (\<lambda>k. 1 / 2),
       dateNow = (\<lambda>k. 1000) \<rparr>"

definition badConstructFn :: Env where
  "badConstructFn =
     \<lparr> parseConstructFn = (\<lambda>fn vars. Inl ''Syntax error''),
       getCompletion = (\<lambda>p s k. Failure ''Rate limited'' 429 True),
       hashPrompt = (\<lambda>p. ''h''),
       mathRandom = (\<lambda>k. 1 / 2),
       dateNow = (\<lambda>k. 1000) \<rparr>"

text \<open>
  The cell as an earlier run leaves it when one retry was scheduled before the provider
  answered (\<open>stale_retryTime_reachable\<close> below), queued again.
\<close>

text \<open>
  The double nearest to 0.3, a value that \<^verbatim>\<open>Math.random()\<close> can return.
\<close>

definition sample_0_3 :: real where
  "sample_0_3 = 5404319552844595 / 2 ^ 54"

definition stale_cell :: ScenarioVariantCell where
  "stale_cell = example_cell\<lparr> statusCode := Some 200, retryTime := Some 1750 \<rparr>"

definition in_progress_cell :: ScenarioVariantCell where
  "in_progress_cell = example_cell\<lparr> retrievalStatus := IN_PROGRESS \<rparr>"

subsection \<open>A node, its entries and a cache\<close>

text \<open>
  An LLMRelabel node \<^verbatim>\<open>n1\<close> with hash \<^verbatim>\<open>hash1\<close>, the same node set to skip relabeling, a
  registry that knows the LLMRelabel kind and gives every other kind no cache fields, five
  entries and three cache records: the first is keyed by the node's hash, the second by the
  node's id under another hash, the third belongs to another node.
\<close>

definition example_node :: LLMRelabelNode where
  "example_node =
     \<lparr> node_id = ''n1'', node_projectId = ''p1'', node_hash = ''hash1'',
       node_type = ''LLMRelabel'', relabelLLM = RelabelModel ''gpt-4'',
       maxLLMConcurrency = 2 \<rparr>"

definition skip_node :: LLMRelabelNode where
  "skip_node = example_node\<lparr> relabelLLM := SkipRelabel \<rparr>"

definition example_registry :: "string \<Rightarrow> NodeProperties" where
  "example_registry t =
     (if t = ''LLMRelabel'' then llmRelabelProperties
      else \<lparr> cacheMatchFields = None, cacheWriteFields = None, readBatchSize = 50 \<rparr>)"

definition matchOnly :: "string \<Rightarrow> NodeProperties" where
  "matchOnly t =
     \<lparr> cacheMatchFields = Some [IncomingInputHash], cacheWriteFields = None,
       readBatchSize = 50 \<rparr>"

definition writeOnly :: "string \<Rightarrow> NodeProperties" where
  "writeOnly t =
     \<lparr> cacheMatchFields = None, cacheWriteFields = Some [OutgoingOutputHash],
       readBatchSize = 50 \<rparr>"

definition noCache :: "string \<Rightarrow> NodeProperties" where
  "noCache t = \<lparr> cacheMatchFields = None, cacheWriteFields = None, readBatchSize = 50 \<rparr>"

definition example_entry :: "string \<Rightarrow> string \<Rightarrow> NodeEntryStatus \<Rightarrow> string \<Rightarrow> NodeEntry" where
  "example_entry i n s h =
     \<lparr> ne_id = i, ne_nodeId = n, ne_persistentId = i, ne_status = s,
       ne_inputHash = Some h, ne_outputHash = Some ''old'',
       ne_originalOutputHash = Some ''orig'', ne_split = Some TRAIN \<rparr>"

definition example_cached ::
  "string option \<Rightarrow> string option \<Rightarrow> string \<Rightarrow> string \<Rightarrow> CachedProcessedEntry" where
  "example_cached nh ni hin hout =
     \<lparr> cpne_nodeHash = nh, cpne_nodeId = ni, cpne_nodeEntryPersistentId = None,
       cpne_incomingInputHash = Some hin, cpne_incomingOutputHash = None,
       cpne_outgoingInputHash = None, cpne_outgoingOutputHash = Some hout,
       cpne_outgoingSplit = None \<rparr>"

definition example_db :: PipelineDb where
  "example_db =
     \<lparr> nodeEntries =
         [example_entry ''e1'' ''n1'' NE_PENDING ''in1'',
          example_entry ''e2'' ''n1'' NE_PENDING ''in2'',
          example_entry ''e3'' ''n1'' NE_ERROR ''in1'',
          example_entry ''e4'' ''n2'' NE_PENDING ''in1'',
          example_entry ''e5'' ''n1'' NE_PENDING ''in5''],
       cachedProcessedEntries =
         [example_cached (Some ''hash1'') None ''in1'' ''out1'',
          example_cached (Some ''hash0'') (Some ''n1'') ''in5'' ''out5'',
          example_cached (Some ''hash0'') (Some ''n0'') ''in2'' ''out2''],
       executed = 0 \<rparr>"

subsection \<open>An entry to relabel and answers of the model\<close>

definition example_relabel_entry :: RelabelEntry where
  "example_relabel_entry =
     \<lparr> entry_id = ''e1'', entry_messages = ''msgs'', entry_tool_choice = None,
       entry_tools = None, entry_response_format = None, entry_output = ''orig-out'' \<rparr>"

definition example_request :: CompletionRequest where
  "example_request =
     \<lparr> req_model = ''gpt-4'', req_messages = ''msgs'', req_tool_choice = None,
       req_tools = None, req_response_format = None \<rparr>"

definition rateLimited :: "string \<Rightarrow> CompletionRequest \<Rightarrow> JsError + ChatCompletion" where
  "rateLimited projectId req = Inl (APIError (Some 429) (Some ''Too many requests''))"

definition serverError :: "string \<Rightarrow> CompletionRequest \<Rightarrow> JsError + ChatCompletion" where
  "serverError projectId req = Inl (APIError (Some 500) None)"

definition networkError :: "string \<Rightarrow> CompletionRequest \<Rightarrow> JsError + ChatCompletion" where
  "networkError projectId req = Inl (OtherError (Some ''socket hang up''))"

definition oneChoice :: "string \<Rightarrow> CompletionRequest \<Rightarrow> JsError + ChatCompletion" where
  "oneChoice projectId req = Inr \<lparr> choices = [\<lparr> choice_message = Some ''relabeled'' \<rparr>] \<rparr>"

definition emptyCompletion :: "string \<Rightarrow> CompletionRequest \<Rightarrow> JsError + ChatCompletion" where
  "emptyCompletion projectId req = Inr \<lparr> choices = [] \<rparr>"

section \<open>Properties of double arithmetic\<close>

subsection \<open>The spacing of doubles\<close>

lemma powi2_less_D: "(2::real) powi m < 2 powi n \<Longrightarrow> m < n"
  using power_int_increasing[of n m "2::real"] by (cases "m < n") auto

lemma spacing_binade:
  assumes "2 powi e \<le> \<bar>x\<bar>" and "\<bar>x\<bar> < 2 powi (e + 1)" and "- 1022 \<le> e"
  shows "e + 1022 \<le> int k \<Longrightarrow> spacing k x = 2 powi (e - 52)"
proof (induction k)
  case 0
  then have "e = - 1022" using assms(3) by simp
  then show ?case by simp
next
  case (Suc k)
  show ?case
  proof (cases "2 powi (int (Suc k) - 1022) \<le> \<bar>x\<bar>")
    case True
    then have "(2::real) powi (int (Suc k) - 1022) < 2 powi (e + 1)"
      using assms(2) by linarith
    then have "int (Suc k) - 1022 < e + 1"
      by (rule powi2_less_D)
    with Suc.prems have "int (Suc k) - 1074 = e - 52" by linarith
    with True show ?thesis by simp
  next
    case False
    then have "(2::real) powi e < 2 powi (int (Suc k) - 1022)"
      using assms(1) by linarith
    then have "e < int (Suc k) - 1022"
      by (rule powi2_less_D)
    then have "e + 1022 \<le> int k" by linarith
    with Suc.IH False show ?thesis by simp
  qed
qed

lemma ulp_binade:
  assumes "2 powi e \<le> \<bar>x\<bar>" and "\<bar>x\<bar> < 2 powi (e + 1)" and "- 1022 \<le> e" and "e \<le> 1023"
  shows "ulp x = 2 powi (e - 52)"
  unfolding ulp_def using assms(4) by (intro spacing_binade[OF assms(1-3)]) simp

lemma spacing_below:
  assumes "\<bar>x\<bar> < 2 powi (e + 1)" and "- 1022 \<le> e"
  shows "\<exists>m. spacing k x = 2 powi m \<and> - 1074 \<le> m \<and> m \<le> e - 52"
proof (induction k)
  case 0
  show ?case using assms(2) by (intro exI[of _ "- 1074"]) simp
next
  case (Suc k)
  show ?case
  proof (cases "2 powi (int (Suc k) - 1022) \<le> \<bar>x\<bar>")
    case True
    then have "(2::real) powi (int (Suc k) - 1022) < 2 powi (e + 1)"
      using assms(1) by linarith
    then have "int (Suc k) - 1022 < e + 1"
      by (rule powi2_less_D)
    then show ?thesis using True by (intro exI[of _ "int (Suc k) - 1074"]) simp
  next
    case False
    with Suc.IH show ?thesis by simp
  qed
qed

lemma ulp_below:
  assumes "\<bar>x\<bar> < 2 powi (e + 1)" and "- 1022 \<le> e"
  shows "\<exists>m. ulp x = 2 powi m \<and> - 1074 \<le> m \<and> m \<le> e - 52"
  unfolding ulp_def by (rule spacing_below[OF assms])

lemma ulp_top:
  assumes "2 ^ 1023 \<le> \<bar>x\<bar>"
  shows "ulp x = 2 powi 971"
proof -
  have "(2045::nat) = Suc 2044" by simp
  moreover have "(2::real) powi (int (Suc 2044) - 1022) \<le> \<bar>x\<bar>"
    using assms by (simp add: power_int_def)
  ultimately show ?thesis unfolding ulp_def by (simp only: spacing.simps if_True) simp
qed

subsection \<open>Rounding\<close>

lemma roundHalfEven_of_int [simp]: "roundHalfEven (of_int n) = n"
  by (simp add: roundHalfEven_def)

lemma roundHalfEven_ge: "of_int n \<le> y \<Longrightarrow> n \<le> roundHalfEven y"
proof -
  assume "of_int n \<le> y"
  then have "n \<le> \<lfloor>y\<rfloor>" by (simp add: le_floor_iff)
  then show ?thesis by (simp add: roundHalfEven_def Let_def)
qed

lemma roundHalfEven_le: "y \<le> of_int n \<Longrightarrow> roundHalfEven y \<le> n"
proof (cases "y = of_int n")
  case True
  then show ?thesis by simp
next
  case False
  assume "y \<le> of_int n"
  with False have "y < of_int n" by simp
  then have "\<lfloor>y\<rfloor> < n" by (simp add: floor_less_iff)
  then show ?thesis by (simp add: roundHalfEven_def Let_def)
qed

lemma roundHalfEven_error: "\<bar>of_int (roundHalfEven y) - y\<bar> \<le> 1 / 2"
proof -
  have "of_int \<lfloor>y\<rfloor> \<le> y" "y < of_int \<lfloor>y\<rfloor> + 1" by linarith+
  then show ?thesis by (auto simp: roundHalfEven_def Let_def)
qed

lemma ulp_pos: "0 < ulp x"
proof -
  have "0 < spacing k x" for k by (induction k) simp_all
  then show ?thesis by (simp add: ulp_def)
qed

lemma toDouble_ge:
  assumes "a = of_int n * ulp x" and "a \<le> x"
  shows "a \<le> toDouble x"
proof -
  have "of_int n \<le> x / ulp x" using assms ulp_pos[of x] by (simp add: pos_le_divide_eq)
  then have "n \<le> roundHalfEven (x / ulp x)" by (rule roundHalfEven_ge)
  then have "(of_int n :: real) \<le> of_int (roundHalfEven (x / ulp x))" by simp
  then show ?thesis unfolding toDouble_def assms(1)
    using ulp_pos[of x] by (intro mult_right_mono) simp_all
qed

lemma toDouble_le:
  assumes "a = of_int n * ulp x" and "x \<le> a"
  shows "toDouble x \<le> a"
proof -
  have "x / ulp x \<le> of_int n" using assms ulp_pos[of x] by (simp add: pos_divide_le_eq)
  then have "roundHalfEven (x / ulp x) \<le> n" by (rule roundHalfEven_le)
  then have "(of_int (roundHalfEven (x / ulp x)) :: real) \<le> of_int n" by simp
  then show ?thesis unfolding toDouble_def assms(1)
    using ulp_pos[of x] by (intro mult_right_mono) simp_all
qed

lemma toDouble_exact:
  assumes "x = of_int n * ulp x"
  shows "toDouble x = x"
  using toDouble_ge[OF assms] toDouble_le[OF assms] by simp

lemma toDouble_error: "\<bar>toDouble x - x\<bar> \<le> ulp x / 2"
proof -
  have "toDouble x - x = (of_int (roundHalfEven (x / ulp x)) - x / ulp x) * ulp x"
    using ulp_pos[of x] by (simp add: toDouble_def algebra_simps)
  then have "\<bar>toDouble x - x\<bar> = \<bar>of_int (roundHalfEven (x / ulp x)) - x / ulp x\<bar> * ulp x"
    using ulp_pos[of x] by (simp add: abs_mult)
  also have "\<dots> \<le> 1 / 2 * ulp x"
    using ulp_pos[of x] roundHalfEven_error[of "x / ulp x"] by (intro mult_right_mono) simp_all
  finally show ?thesis by simp
qed

text \<open>An integer is a multiple of every spacing below one.\<close>

lemma int_multiple_of_powi:
  assumes "m \<le> 0"
  shows "\<exists>n. (of_int b :: real) = of_int n * 2 powi m"
proof -
  have "(2::real) powi m = 1 / 2 ^ nat (- m)"
    using assms by (simp add: power_int_def field_simps)
  then have "(of_int b :: real) = of_int (b * 2 ^ nat (- m)) * 2 powi m" by simp
  then show ?thesis by blast
qed

lemma toDouble_between_ints:
  assumes "\<bar>x\<bar> < 2 ^ 52" and "of_int a \<le> x" and "x \<le> of_int b"
  shows "of_int a \<le> toDouble x \<and> toDouble x \<le> of_int b"
proof -
  have "\<bar>x\<bar> < 2 powi (51 + 1)" using assms(1) by simp
  from ulp_below[OF this] obtain m where m: "ulp x = 2 powi m" "m \<le> 51 - 52" by auto
  then have m0: "m \<le> 0" by simp
  obtain n where n: "(of_int a :: real) = of_int n * ulp x"
    using int_multiple_of_powi[OF m0, of a] m(1) by auto
  obtain n' where n': "(of_int b :: real) = of_int n' * ulp x"
    using int_multiple_of_powi[OF m0, of b] m(1) by auto
  show ?thesis using toDouble_ge[OF n assms(2)] toDouble_le[OF n' assms(3)] by simp
qed

lemma toDouble_error_below:
  assumes "\<bar>x\<bar> < 2 powi (e + 1)" and "- 1022 \<le> e"
  shows "\<bar>toDouble x - x\<bar> \<le> 2 powi (e - 53)"
proof -
  from ulp_below[OF assms] obtain m where m: "ulp x = 2 powi m" "m \<le> e - 52" by auto
  have "(2::real) powi m \<le> 2 powi (e - 52)" using m(2) by (intro power_int_increasing) simp_all
  then have "ulp x / 2 \<le> 2 powi (e - 52) / 2" using m(1) by simp
  also have "\<dots> = 2 powi (e - 53)"
    using power_int_add[of "2::real" "e - 53" 1] by simp
  finally show ?thesis using toDouble_error[of x] by linarith
qed

lemma toDouble_eval:
  assumes "2 powi e \<le> \<bar>x\<bar>" and "\<bar>x\<bar> < 2 powi (e + 1)" and "- 1022 \<le> e" and "e \<le> 1023"
    and "roundHalfEven (x * 2 powi (52 - e)) = n"
  shows "toDouble x = of_int n * 2 powi (e - 52)"
proof -
  have u: "ulp x = 2 powi (e - 52)" using assms(1-4) by (rule ulp_binade)
  have "(2::real) powi (52 - e) = inverse (2 powi (e - 52))"
    using power_int_minus[of "2::real" "e - 52"] by simp
  then have "x / 2 powi (e - 52) = x * 2 powi (52 - e)" by (simp add: divide_inverse)
  then show ?thesis using assms(5) by (simp add: toDouble_def u)
qed

subsection \<open>The base delay is exact\<close>

text \<open>
  A power of two and its product with 500 are doubles as long as they are finite, and are
  infinite beyond; either way \<^verbatim>\<open>Math.min\<close> returns \<open>min(15000, 500 \<cdot> 2^n)\<close>.
\<close>

lemma toDouble_of_int:
  assumes "\<bar>real_of_int a\<bar> < 2 ^ 52"
  shows "toDouble (of_int a) = of_int a"
  using toDouble_between_ints[OF assms, of a a] by simp

lemma toNumber_exact:
  assumes "2 powi e \<le> x" and "x < 2 powi (e + 1)" and "- 1022 \<le> e" and "e \<le> 1023"
    and "x = of_int n * 2 powi (e - 52)"
  shows "toNumber x = Finite x"
proof -
  have "(0::real) < 2 powi e" by simp
  then have pos: "0 < x" using assms(1) by linarith
  then have ax: "\<bar>x\<bar> = x" by simp
  have u: "ulp x = 2 powi (e - 52)"
    using assms(1-4) by (intro ulp_binade) (simp_all add: ax)
  have ex: "toDouble x = x" using assms(5) u by (intro toDouble_exact[of x n]) simp
  have "(2::real) powi (e + 1) \<le> 2 powi 1024"
    using assms(4) by (intro power_int_increasing) simp_all
  then have "x < 2 ^ 1024" using assms(2) by simp
  then show ?thesis by (simp add: toNumber_def ex)
qed

lemma toNumber_overflow:
  assumes "2 ^ 1024 \<le> x"
  shows "toNumber x = Infinity"
proof -
  have "(2::real) ^ 1023 \<le> 2 ^ 1024" by simp
  then have "2 ^ 1023 \<le> \<bar>x\<bar>" using assms by linarith
  then have u: "ulp x = 2 powi 971" by (rule ulp_top)
  have "(2::real) ^ 1024 = 2 powi 53 * 2 powi 971"
    using power_int_add[of "2::real" 53 971] by simp
  also have "\<dots> = of_int (2 ^ 53) * ulp x" by (simp add: u)
  finally have "(2::real) ^ 1024 = of_int (2 ^ 53) * ulp x" .
  from toDouble_ge[OF this assms] show ?thesis by (simp add: toNumber_def)
qed

lemma jsPow2_finite:
  assumes "n \<le> 1023"
  shows "jsPow2 n = Finite (2 ^ n)"
proof -
  have "(2::real) ^ n = 2 powi 52 * 2 powi (int n - 52)"
    using power_int_add[of "2::real" 52 "int n - 52"] by simp
  then have "(2::real) ^ n = of_int (2 ^ 52) * 2 powi (int n - 52)" by simp
  moreover have "(2::real) ^ n < 2 powi (int n + 1)"
    using power_int_add[of "2::real" "int n" 1] by simp
  ultimately show ?thesis
    unfolding jsPow2_def using assms by (intro toNumber_exact[of "int n"]) simp_all
qed

lemma jsPow2_infinite:
  assumes "1024 \<le> n"
  shows "jsPow2 n = Infinity"
proof -
  have "(2::real) ^ 1024 \<le> 2 ^ n" using assms by (intro power_increasing) simp_all
  then show ?thesis unfolding jsPow2_def by (rule toNumber_overflow)
qed

lemma baseDelay_exact:
  "jsMin MAX_DELAY (jsTimes (Finite MIN_DELAY) (jsPow2 n)) = min 15000 (500 * 2 ^ n)"
proof -
  have big: "min (15000::real) (500 * 2 ^ n) = 15000" if "5 \<le> n"
  proof -
    have "(2::real) ^ 5 \<le> 2 ^ n" using that by (intro power_increasing) simp_all
    then show ?thesis by simp
  qed
  consider "n \<le> 1015" | "1016 \<le> n" "n \<le> 1023" | "1024 \<le> n" by linarith
  then show ?thesis
  proof cases
    case 1
    have a: "(500::real) * 2 ^ n = of_int (500 * 2 ^ 44) * 2 powi (int n + 8 - 52)"
      using power_int_add[of "2::real" 44 "int n - 44"] by simp
    have b: "(2::real) powi (int n + 8) \<le> 500 * 2 ^ n"
      using power_int_add[of "2::real" "int n" 8] by simp
    have p9: "(2::real) powi (int n + 8 + 1) = 2 ^ n * 512"
      by (simp add: power_int_add)
    have c: "(500::real) * 2 ^ n < 2 powi (int n + 8 + 1)"
      unfolding p9 by simp
    have "toNumber (500 * 2 ^ n) = Finite (500 * 2 ^ n)"
      using 1 by (intro toNumber_exact[OF b c _ _ a]) simp_all
    then show ?thesis using 1 by (simp add: jsPow2_finite MIN_DELAY_def MAX_DELAY_def)
  next
    case 2
    have "(2::real) ^ 1024 = 256 * 2 ^ 1016" by simp
    also have "\<dots> \<le> 256 * 2 ^ n" using 2(1) by (intro mult_left_mono power_increasing) simp_all
    also have "\<dots> \<le> 500 * 2 ^ n" by simp
    finally have "toNumber (500 * 2 ^ n) = Infinity" by (rule toNumber_overflow)
    then show ?thesis using 2 big by (simp add: jsPow2_finite MIN_DELAY_def MAX_DELAY_def)
  next
    case 3
    then show ?thesis using big by (simp add: jsPow2_infinite MAX_DELAY_def)
  qed
qed

lemma calculateDelay_unfold:
  "calculateDelay i r =
     toDouble (min 15000 (500 * 2 ^ i) + toDouble (r * min 15000 (500 * 2 ^ i)))"
  by (simp add: calculateDelay_def baseDelay_exact Let_def)

lemma baseDelay_int: "min (15000::real) (500 * 2 ^ i) = of_int (min 15000 (500 * 2 ^ i))"
  by (simp add: of_int_min)

subsection \<open>Values used in the examples\<close>

lemma sample_0_3_is_double: "toDouble sample_0_3 = sample_0_3"
proof -
  have "toDouble (5404319552844595 / 2 ^ 54) = of_int 5404319552844595 * 2 powi (- 2 - 52)"
    by (rule toDouble_eval) (simp_all add: roundHalfEven_def Let_def power_int_minus)
  also have "\<dots> = 5404319552844595 / 2 ^ 54" by (simp add: power_int_minus field_simps)
  finally show ?thesis by (simp only: sample_0_3_def)
qed

lemma jitter_0_3: "toDouble (sample_0_3 * 500) = 150"
proof -
  have "toDouble (5404319552844595 / 2 ^ 54 * 500) = of_int 5277655813324800 * 2 powi (7 - 52)"
    by (rule toDouble_eval) (simp_all add: roundHalfEven_def Let_def)
  also have "\<dots> = 150" by (simp add: power_int_minus field_simps)
  finally show ?thesis by (simp only: sample_0_3_def)
qed

lemma toDouble_650: "toDouble 650 = 650"
  using toDouble_of_int[of 650] by simp

lemma calculateDelay_0_half: "calculateDelay 0 (1 / 2) = 750"
  using toDouble_of_int[of 250] toDouble_of_int[of 750]
  by (simp add: calculateDelay_unfold)

lemma toDouble_1750: "toDouble 1750 = 1750"
  using toDouble_of_int[of 1750] by simp

section \<open>Properties of the retry engine\<close>

subsection \<open>One iteration of the loop\<close>

lemma updateCell_Some:
  "cells w cid = Some c \<Longrightarrow>
   updateCell cid d w =
     Inr (w\<lparr> cells := (cells w)(cid \<mapsto> applyData d c), trace := trace w @ [CellUpdate cid d] \<rparr>)"
  by (simp add: updateCell_def)

lemma updateCell_None: "cells w cid = None \<Longrightarrow> updateCell cid d w = Inl RecordNotFound"
  by (simp add: updateCell_def)

lemma cells_emit [simp]: "cells (emit e w) = cells w"
  by (simp add: emit_def)

lemma trace_emit [simp]: "trace (emit e w) = trace w @ [e]"
  by (simp add: emit_def)

lemma cells_createModelOutput [simp]: "cells (createModelOutput mo w) = cells w"
  by (simp add: createModelOutput_def)

lemma trace_createModelOutput [simp]:
  "trace (createModelOutput mo w) = trace w @ [ModelOutputCreate mo]"
  by (simp add: createModelOutput_def)

lemma retryLoop_stop:
  assumes "cells w cid = Some c"
    and "getCompletion env prompt strm i = Failure msg code autoRetry"
    and "\<not> (autoRetry \<and> i < MAX_AUTO_RETRIES)"
  shows "retryLoop env cid strm variant scenario prompt i w =
    updateCell cid
      \<lparr> set_statusCode = Some (Some code), set_errorMessage = Some (Some msg),
        set_retryTime = Some None, set_retrievalStatus = Some ERROR \<rparr>
      (emit (ProviderCall i) w)"
  using assms
  by (subst retryLoop.simps) (auto simp: updateCell_def Let_def)

lemma retryLoop_retry:
  assumes "cells w cid = Some c"
    and "getCompletion env prompt strm i = Failure msg code True"
    and "i < MAX_AUTO_RETRIES"
  shows "retryLoop env cid strm variant scenario prompt i w =
    (case updateCell cid
      \<lparr> set_statusCode = Some (Some code), set_errorMessage = Some (Some msg),
        set_retryTime = Some (Some (newDate (toDouble (real_of_int (dateNow env i)
                                      + calculateDelay i (mathRandom env i))))),
        set_retrievalStatus = Some ERROR \<rparr>
      (emit (ProviderCall i) w) of Inl e \<Rightarrow> Inl e | Inr w2 \<Rightarrow> 
     retryLoop env cid strm variant scenario prompt (Suc i)
       (emit (Sleep (calculateDelay i (mathRandom env i))) w2))"
  using assms
  by (subst retryLoop.simps) (auto simp: updateCell_def Let_def)

lemma retryLoop_success:
  assumes "cells w cid = Some c"
    and "getCompletion env prompt strm i = Success val ttc ptok ctok cst code"
  shows "retryLoop env cid strm variant scenario prompt i w =
    (case updateCell cid
            \<lparr> set_statusCode = Some (Some code), set_errorMessage = None,
              set_retryTime = None, set_retrievalStatus = Some COMPLETE \<rparr>
            (createModelOutput
               \<lparr> scenarioVariantCellId = cid, inputHash = hashPrompt env prompt,
                 outputValue = val, timeToComplete = ttc, promptTokens = ptok,
                 completionTokens = ctok, cost = cst \<rparr>
               (emit (ProviderCall i) w)) of
       Inl e \<Rightarrow> Inl e
     | Inr w2 \<Rightarrow> Inr (emit (RunEvals (experimentId variant)) w2))"
  using assms
  by (subst retryLoop.simps) (simp add: Let_def)

lemma retryLoop_total:
  "cells w cid = Some c \<Longrightarrow>
   \<exists>w' c' rest. retryLoop env cid strm variant scenario prompt i w = Inr w'
      \<and> cells w' cid = Some c'
      \<and> trace w' = trace w @ ProviderCall i # rest"
proof (induction k \<equiv> "Suc MAX_AUTO_RETRIES - i" arbitrary: i w c)
  case 0
  then have stop: "\<not> (a \<and> i < MAX_AUTO_RETRIES)" for a by simp
  show ?case
  proof (cases "getCompletion env prompt strm i")
    case (Success val ttc ptok ctok cst code)
    then show ?thesis using "0.prems"
      by (simp add: retryLoop_success updateCell_def)
  next
    case (Failure msg code autoRetry)
    then show ?thesis using "0.prems" stop
      by (simp add: retryLoop_stop updateCell_def)
  qed
next
  case (Suc k)
  show ?case
  proof (cases "getCompletion env prompt strm i")
    case (Success val ttc ptok ctok cst code)
    then show ?thesis using Suc.prems
      by (simp add: retryLoop_success updateCell_def)
  next
    case (Failure msg code autoRetry)
    show ?thesis
    proof (cases "autoRetry \<and> i < MAX_AUTO_RETRIES")
      case True
      define d where "d = \<lparr> set_statusCode = Some (Some code), set_errorMessage = Some (Some msg),
        set_retryTime = Some (Some (newDate (toDouble (real_of_int (dateNow env i)
                                      + calculateDelay i (mathRandom env i))))),
        set_retrievalStatus = Some ERROR \<rparr>"
      define w2 where "w2 = emit (Sleep (calculateDelay i (mathRandom env i)))
          ((emit (ProviderCall i) w)\<lparr> cells := (cells w)(cid \<mapsto> applyData d c),
                  trace := trace w @ [ProviderCall i, CellUpdate cid d] \<rparr>)"
      have step: "retryLoop env cid strm variant scenario prompt i w =
        retryLoop env cid strm variant scenario prompt (Suc i) w2"
        using Suc.prems Failure True
        by (simp add: retryLoop_retry updateCell_def d_def w2_def)
      have c2: "cells w2 cid = Some (applyData d c)" by (simp add: w2_def)
      have t2: "trace w2 = trace w @ [ProviderCall i, CellUpdate cid d,
                   Sleep (calculateDelay i (mathRandom env i))]" by (simp add: w2_def)
      have "k = Suc MAX_AUTO_RETRIES - Suc i" using Suc.hyps(2) by simp
      from Suc.hyps(1)[OF this c2]
      obtain w' c' rest where
        "retryLoop env cid strm variant scenario prompt (Suc i) w2 = Inr w'"
        "cells w' cid = Some c'"
        "trace w' = trace w2 @ ProviderCall (Suc i) # rest"
        by blast
      then show ?thesis using step t2 by simp
    next
      case False
      then show ?thesis
        using retryLoop_stop[OF Suc.prems Failure False, of variant scenario] Suc.prems
        by (simp add: updateCell_def)
    qed
  qed
qed

lemma providerCalls_simps [simp]:
  "providerCalls [] = 0"
  "providerCalls (ProviderCall k # tr) = Suc (providerCalls tr)"
  "providerCalls (CellUpdate cid d # tr) = providerCalls tr"
  "providerCalls (ModelOutputCreate mo # tr) = providerCalls tr"
  "providerCalls (RunEvals x # tr) = providerCalls tr"
  "providerCalls (Sleep dl # tr) = providerCalls tr"
  "providerCalls (tr @ tr') = providerCalls tr + providerCalls tr'"
  by (simp_all add: providerCalls_def)

text \<open>
  The provider calls of a run of the loop carry consecutive indices: the call with index
  \<open>i\<close> is preceded by \<open>i\<close> calls when the loop is entered at 0, and no run makes more
  than 11 of them.
\<close>

lemma retryLoop_calls_numbered:
  "cells w cid = Some c \<Longrightarrow> i \<le> MAX_AUTO_RETRIES \<Longrightarrow>
    \<exists>w' n. retryLoop env cid strm variant scenario prompt i w = Inr w'
       \<and> filter isProviderCall (trace w') =
           filter isProviderCall (trace w) @ map ProviderCall [i ..< i + n]
       \<and> 0 < n \<and> i + n \<le> Suc MAX_AUTO_RETRIES"
proof (induction k \<equiv> "MAX_AUTO_RETRIES - i" arbitrary: i w c)
  case 0
  then have i: "i = MAX_AUTO_RETRIES" by simp
  show ?case
  proof (cases "getCompletion env prompt strm i")
    case (Success val ttc ptok ctok cst code)
    then have "\<exists>w'. retryLoop env cid strm variant scenario prompt i w = Inr w'
       \<and> filter isProviderCall (trace w') =
           filter isProviderCall (trace w) @ map ProviderCall [i ..< i + 1]"
      using "0.prems"(1) by (simp add: retryLoop_success updateCell_def)
    then show ?thesis using i by (metis add.commute less_numeral_extra(1) order_refl plus_1_eq_Suc)
  next
    case (Failure msg code autoRetry)
    have "\<not> (autoRetry \<and> i < MAX_AUTO_RETRIES)" using i by simp
    from retryLoop_stop[OF "0.prems"(1) Failure this, of variant scenario] "0.prems"(1)
    have "\<exists>w'. retryLoop env cid strm variant scenario prompt i w = Inr w'
       \<and> filter isProviderCall (trace w') =
           filter isProviderCall (trace w) @ map ProviderCall [i ..< i + 1]"
      by (simp add: updateCell_def)
    then show ?thesis using i by (metis add.commute less_numeral_extra(1) order_refl plus_1_eq_Suc)
  qed
next
  case (Suc k)
  then have lt: "i < MAX_AUTO_RETRIES" by simp
  show ?case
  proof (cases "getCompletion env prompt strm i")
    case (Success val ttc ptok ctok cst code)
    then have "\<exists>w'. retryLoop env cid strm variant scenario prompt i w = Inr w'
       \<and> filter isProviderCall (trace w') =
           filter isProviderCall (trace w) @ map ProviderCall [i ..< i + 1]"
      using Suc.prems(1) by (simp add: retryLoop_success updateCell_def)
    moreover have "i + 1 \<le> Suc MAX_AUTO_RETRIES" using lt by simp
    ultimately show ?thesis by (metis less_numeral_extra(1))
  next
    case (Failure msg code autoRetry)
    show ?thesis
    proof (cases autoRetry)
      case False
      then have "\<not> (autoRetry \<and> i < MAX_AUTO_RETRIES)" by simp
      from retryLoop_stop[OF Suc.prems(1) Failure this, of variant scenario] Suc.prems(1)
      have "\<exists>w'. retryLoop env cid strm variant scenario prompt i w = Inr w'
         \<and> filter isProviderCall (trace w') =
             filter isProviderCall (trace w) @ map ProviderCall [i ..< i + 1]"
        by (simp add: updateCell_def)
      moreover have "i + 1 \<le> Suc MAX_AUTO_RETRIES" using lt by simp
      ultimately show ?thesis by (metis less_numeral_extra(1))
    next
      case True
      define d where "d = \<lparr> set_statusCode = Some (Some code), set_errorMessage = Some (Some msg),
        set_retryTime = Some (Some (newDate (toDouble (real_of_int (dateNow env i)
                                      + calculateDelay i (mathRandom env i))))),
        set_retrievalStatus = Some ERROR \<rparr>"
      define w2 where "w2 = emit (Sleep (calculateDelay i (mathRandom env i)))
          ((emit (ProviderCall i) w)\<lparr> cells := (cells w)(cid \<mapsto> applyData d c),
                  trace := trace w @ [ProviderCall i, CellUpdate cid d] \<rparr>)"
      have step: "retryLoop env cid strm variant scenario prompt i w =
        retryLoop env cid strm variant scenario prompt (Suc i) w2"
        using Suc.prems(1) Failure True lt
        by (simp add: retryLoop_retry updateCell_def d_def w2_def)
      have c2: "cells w2 cid = Some (applyData d c)" by (simp add: w2_def)
      have t2: "filter isProviderCall (trace w2) = filter isProviderCall (trace w) @ [ProviderCall i]"
        by (simp add: w2_def)
      have k: "k = MAX_AUTO_RETRIES - Suc i" using Suc.hyps(2) by simp
      have le: "Suc i \<le> MAX_AUTO_RETRIES" using lt by simp
      from Suc.hyps(1)[OF k c2 le]
      obtain w' n where r:
        "retryLoop env cid strm variant scenario prompt (Suc i) w2 = Inr w'"
        "filter isProviderCall (trace w') =
           filter isProviderCall (trace w2) @ map ProviderCall [Suc i ..< Suc i + n]"
        "0 < n" "Suc i + n \<le> Suc MAX_AUTO_RETRIES"
        by blast
      have "[i ..< i + Suc n] = i # [Suc i ..< Suc i + n]"
        by (simp add: upt_conv_Cons)
      then have "filter isProviderCall (trace w') =
           filter isProviderCall (trace w) @ map ProviderCall [i ..< i + Suc n]"
        using r(2) t2 by simp
      moreover have "i + Suc n \<le> Suc MAX_AUTO_RETRIES" using r(4) by simp
      ultimately show ?thesis using step r(1) by (metis zero_less_Suc)
    qed
  qed
qed

subsection \<open>A provider that always asks for a retry\<close>

lemma retryLoop_always_retryable:
  assumes fail: "\<And>k. \<exists>m sc. getCompletion env prompt strm k = Failure m sc True"
  shows "cells w cid = Some c \<Longrightarrow> i \<le> MAX_AUTO_RETRIES \<Longrightarrow>
    \<exists>w' c'. retryLoop env cid strm variant scenario prompt i w = Inr w'
       \<and> providerCalls (trace w') = providerCalls (trace w) + (Suc MAX_AUTO_RETRIES - i)
       \<and> cells w' cid = Some c' \<and> retrievalStatus c' = ERROR \<and> retryTime c' = None"
proof (induction k \<equiv> "MAX_AUTO_RETRIES - i" arbitrary: i w c)
  case 0
  then have i: "i = MAX_AUTO_RETRIES" by simp
  obtain m sc where f: "getCompletion env prompt strm i = Failure m sc True"
    using fail by blast
  have "\<not> (True \<and> i < MAX_AUTO_RETRIES)" using i by simp
  from retryLoop_stop[OF "0.prems"(1) f this, of variant scenario] "0.prems"(1) i
  show ?case
    by (simp add: updateCell_def providerCalls_def applyData_def)
next
  case (Suc k)
  then have lt: "i < MAX_AUTO_RETRIES" by simp
  obtain m sc where f: "getCompletion env prompt strm i = Failure m sc True"
    using fail by blast
  define d where "d = \<lparr> set_statusCode = Some (Some sc), set_errorMessage = Some (Some m),
        set_retryTime = Some (Some (newDate (toDouble (real_of_int (dateNow env i)
                                      + calculateDelay i (mathRandom env i))))),
        set_retrievalStatus = Some ERROR \<rparr>"
  define w2 where "w2 = emit (Sleep (calculateDelay i (mathRandom env i)))
          ((emit (ProviderCall i) w)\<lparr> cells := (cells w)(cid \<mapsto> applyData d c),
                  trace := trace w @ [ProviderCall i, CellUpdate cid d] \<rparr>)"
  have step: "retryLoop env cid strm variant scenario prompt i w =
        retryLoop env cid strm variant scenario prompt (Suc i) w2"
    using Suc.prems(1) f lt
    by (simp add: retryLoop_retry updateCell_def d_def w2_def)
  have c2: "cells w2 cid = Some (applyData d c)" by (simp add: w2_def)
  have t2: "providerCalls (trace w2) = Suc (providerCalls (trace w))"
    by (simp add: w2_def providerCalls_def)
  have k: "k = MAX_AUTO_RETRIES - Suc i" using Suc.hyps(2) by simp
  have le: "Suc i \<le> MAX_AUTO_RETRIES" using lt by simp
  from Suc.hyps(1)[OF k c2 le]
  obtain w' c' where
    "retryLoop env cid strm variant scenario prompt (Suc i) w2 = Inr w'"
    "providerCalls (trace w') = providerCalls (trace w2) + (Suc MAX_AUTO_RETRIES - Suc i)"
    "cells w' cid = Some c'" "retrievalStatus c' = ERROR" "retryTime c' = None"
    by blast
  then show ?case using step t2 lt by auto
qed

text \<open>
  Claim C1. When the cell is found in status PENDING, its prompt variant and test scenario
  exist, the prompt is constructed, and every call of the provider fails with
  \<^verbatim>\<open>autoRetry\<close> set, the task returns after exactly 11 calls of the provider (the first
  attempt and 10 retries), and the cell is left with \<^verbatim>\<open>retrievalStatus = ERROR\<close> and
  \<^verbatim>\<open>retryTime = null\<close>.
\<close>

theorem queryModel_always_retryable:
  assumes "cells w (cellId task) = Some cell"
    and "retrievalStatus cell = PENDING"
    and "promptVariants w (promptVariantId cell) = Some variant"
    and "testScenarios w (testScenarioId cell) = Some scenario"
    and "parseConstructFn env (constructFn variant) (variableValues scenario) = Inr prompt"
    and "\<And>k. \<exists>m sc. getCompletion env prompt (stream task) k = Failure m sc True"
  shows "\<exists>w' cell'. queryModel env task w = Inr w'
           \<and> providerCalls (trace w') = providerCalls (trace w) + 11
           \<and> cells w' (cellId task) = Some cell'
           \<and> retrievalStatus cell' = ERROR \<and> retryTime cell' = None"
proof -
  define d where "d = \<lparr> set_statusCode = None, set_errorMessage = None,
                      set_retryTime = None, set_retrievalStatus = Some IN_PROGRESS \<rparr>"
  define w1 where "w1 = w\<lparr> cells := (cells w)(cellId task \<mapsto> applyData d cell),
                         trace := trace w @ [CellUpdate (cellId task) d] \<rparr>"
  have q: "queryModel env task w =
             retryLoop env (cellId task) (stream task) variant scenario prompt 0 w1"
    using assms(1-5) by (simp add: queryModel_def updateCell_def d_def w1_def)
  have c1: "cells w1 (cellId task) = Some (applyData d cell)" by (simp add: w1_def)
  have t1: "providerCalls (trace w1) = providerCalls (trace w)"
    by (simp add: w1_def providerCalls_def)
  from retryLoop_always_retryable[OF assms(6) c1, of 0 variant scenario]
  show ?thesis using q t1 by (simp add: MAX_AUTO_RETRIES_def)
qed

theorem queryModel_always_retryable_witness:
  "cells example_world (cellId example_job) = Some example_cell
   \<and> retrievalStatus example_cell = PENDING
   \<and> (\<exists>w' cell'. queryModel alwaysRetryable example_job example_world = Inr w'
           \<and> providerCalls (trace w') = 11
           \<and> cells w' ''c1'' = Some cell'
           \<and> retrievalStatus cell' = ERROR \<and> retryTime cell' = None)"
  using queryModel_always_retryable[of example_world example_job example_cell
          example_variant example_scenario alwaysRetryable example_prompt]
  by (simp add: example_world_def example_job_def example_cell_def alwaysRetryable_def
        providerCalls_def)


subsection \<open>When a failed attempt is retried\<close>

text \<open>
  Claim C2, as the specification states it, fails on \<^verbatim>\<open>queryModel\<close>: the provider of
  \<open>failuresThenSuccess 10\<close> fails ten times in a row with \<^verbatim>\<open>autoRetry\<close> set, and the task
  then calls it an eleventh time; that call succeeds and the cell ends in COMPLETE, not in
  ERROR.
\<close>

theorem retry_after_ten_failures_counterexample:
  "providerCalls (finalTrace (queryModel (failuresThenSuccess 10) example_job example_world)) = 11
   \<and> map_option retrievalStatus
        (finalCell ''c1'' (queryModel (failuresThenSuccess 10) example_job example_world))
       = Some COMPLETE"
  by (simp add: finalTrace_def finalCell_def queryModel_def retryLoop.simps updateCell_def failuresThenSuccess_def
        example_job_def example_world_def example_cell_def example_prompt_def
        example_variant_def example_scenario_def
        emit_def createModelOutput_def calculateDelay_0_half toDouble_1750 newDate_def MAX_AUTO_RETRIES_def
        Let_def applyData_def)

text \<open>
  Claim C2, amended. In the iteration with index \<open>i\<close> (the number of provider calls made
  before it in the run), a failed attempt is followed by another provider call exactly when
  the provider set \<^verbatim>\<open>autoRetry\<close> and \<open>i < 10\<close>; the next call then comes after one cell
  update and one sleep. Otherwise the loop ends with the update that leaves the cell in
  ERROR with \<^verbatim>\<open>retryTime = null\<close>. With \<open>i = 10\<close>, the eleventh consecutive failure, no
  further attempt is made.
\<close>

theorem retry_decision:
  assumes "cells w cid = Some c"
    and "getCompletion env prompt strm i = Failure msg code autoRetry"
  shows "\<exists>w' c' rest.
           retryLoop env cid strm variant scenario prompt i w = Inr w'
         \<and> trace w' = trace w @ ProviderCall i # rest
         \<and> cells w' cid = Some c'
         \<and> ((0 < providerCalls rest) = (autoRetry \<and> i < 10))
         \<and> (autoRetry \<and> i < 10 \<longrightarrow>
              (\<exists>d dl rest'. rest = CellUpdate cid d # Sleep dl # ProviderCall (Suc i) # rest'))
         \<and> (\<not> (autoRetry \<and> i < 10) \<longrightarrow>
              rest = [CellUpdate cid
                        \<lparr> set_statusCode = Some (Some code), set_errorMessage = Some (Some msg),
                          set_retryTime = Some None, set_retrievalStatus = Some ERROR \<rparr>]
              \<and> retrievalStatus c' = ERROR \<and> retryTime c' = None)"
proof (cases "autoRetry \<and> i < MAX_AUTO_RETRIES")
  case True
  define d where "d = \<lparr> set_statusCode = Some (Some code), set_errorMessage = Some (Some msg),
        set_retryTime = Some (Some (newDate (toDouble (real_of_int (dateNow env i)
                                      + calculateDelay i (mathRandom env i))))),
        set_retrievalStatus = Some ERROR \<rparr>"
  define w2 where "w2 = emit (Sleep (calculateDelay i (mathRandom env i)))
          ((emit (ProviderCall i) w)\<lparr> cells := (cells w)(cid \<mapsto> applyData d c),
                  trace := trace w @ [ProviderCall i, CellUpdate cid d] \<rparr>)"
  have step: "retryLoop env cid strm variant scenario prompt i w =
        retryLoop env cid strm variant scenario prompt (Suc i) w2"
    using assms True
    by (simp add: retryLoop_retry updateCell_def d_def w2_def)
  have c2: "cells w2 cid = Some (applyData d c)" by (simp add: w2_def)
  have t2: "trace w2 = trace w @ [ProviderCall i, CellUpdate cid d,
               Sleep (calculateDelay i (mathRandom env i))]" by (simp add: w2_def)
  from retryLoop_total[OF c2, of env strm variant scenario prompt "Suc i"]
  obtain w' c' rest' where r:
    "retryLoop env cid strm variant scenario prompt (Suc i) w2 = Inr w'"
    "cells w' cid = Some c'"
    "trace w' = trace w2 @ ProviderCall (Suc i) # rest'"
    by blast
  have "trace w' = trace w @ ProviderCall i #
          (CellUpdate cid d # Sleep (calculateDelay i (mathRandom env i))
             # ProviderCall (Suc i) # rest')"
    using r(3) t2 by simp
  then show ?thesis
    using step r(1,2) True by (auto simp: MAX_AUTO_RETRIES_def)
next
  case False
  from retryLoop_stop[OF assms False, of variant scenario] assms(1) False
  show ?thesis
    by (simp add: updateCell_def applyData_def MAX_AUTO_RETRIES_def)
qed

theorem retry_decision_witness:
  "(\<exists>w' c' rest.
      retryLoop alwaysRetryable ''c1'' False example_variant example_scenario example_prompt 10
        example_world = Inr w'
    \<and> trace w' = ProviderCall 10 # rest
    \<and> cells w' ''c1'' = Some c'
    \<and> providerCalls rest = 0
    \<and> rest = [CellUpdate ''c1''
                \<lparr> set_statusCode = Some (Some 429), set_errorMessage = Some (Some ''Rate limited''),
                  set_retryTime = Some None, set_retrievalStatus = Some ERROR \<rparr>]
    \<and> retrievalStatus c' = ERROR \<and> retryTime c' = None)
 \<and> (\<exists>w' c' rest.
      retryLoop notRetryable ''c1'' False example_variant example_scenario example_prompt 0
        example_world = Inr w'
    \<and> trace w' = ProviderCall 0 # rest
    \<and> cells w' ''c1'' = Some c'
    \<and> providerCalls rest = 0
    \<and> rest = [CellUpdate ''c1''
                \<lparr> set_statusCode = Some (Some 400), set_errorMessage = Some (Some ''Bad request''),
                  set_retryTime = Some None, set_retrievalStatus = Some ERROR \<rparr>]
    \<and> retrievalStatus c' = ERROR \<and> retryTime c' = None)
 \<and> (\<exists>w' c' rest.
      retryLoop alwaysRetryable ''c1'' False example_variant example_scenario example_prompt 9
        example_world = Inr w'
    \<and> trace w' = ProviderCall 9 # rest
    \<and> cells w' ''c1'' = Some c'
    \<and> 0 < providerCalls rest
    \<and> (\<exists>d dl rest'. rest = CellUpdate ''c1'' d # Sleep dl # ProviderCall 10 # rest'))"
  using retry_decision[of example_world "''c1''" example_cell alwaysRetryable example_prompt
          False 10 "''Rate limited''" 429 True example_variant example_scenario]
        retry_decision[of example_world "''c1''" example_cell notRetryable example_prompt
          False 0 "''Bad request''" 400 False example_variant example_scenario]
        retry_decision[of example_world "''c1''" example_cell alwaysRetryable example_prompt
          False 9 "''Rate limited''" 429 True example_variant example_scenario]
  by (simp add: example_world_def alwaysRetryable_def notRetryable_def)

subsection \<open>The status of the cell during a retry round\<close>

text \<open>
  Claim C7, as the specification states it, fails on \<^verbatim>\<open>queryModel\<close>: with a provider that fails
  once with \<^verbatim>\<open>autoRetry\<close> set and then succeeds, the only effects between the two provider
  calls are the update that sets the cell to ERROR with a retry time and the sleep. No
  update sets the cell to PENDING or to IN_PROGRESS before the second call.
\<close>

theorem retry_round_trace_counterexample:
  "finalTrace (queryModel (failuresThenSuccess 1) example_job example_world) =
     [CellUpdate ''c1''
        \<lparr> set_statusCode = None, set_errorMessage = None,
          set_retryTime = None, set_retrievalStatus = Some IN_PROGRESS \<rparr>,
      ProviderCall 0,
      CellUpdate ''c1''
        \<lparr> set_statusCode = Some (Some 429), set_errorMessage = Some (Some ''Rate limited''),
          set_retryTime = Some (Some 1750), set_retrievalStatus = Some ERROR \<rparr>,
      Sleep 750,
      ProviderCall 1,
      ModelOutputCreate
        \<lparr> scenarioVariantCellId = ''c1'', inputHash = ''h'', outputValue = ''out'',
          timeToComplete = 100, promptTokens = None, completionTokens = None, cost = None \<rparr>,
      CellUpdate ''c1''
        \<lparr> set_statusCode = Some (Some 200), set_errorMessage = None,
          set_retryTime = None, set_retrievalStatus = Some COMPLETE \<rparr>,
      RunEvals ''e1'']"
  by (simp add: finalTrace_def queryModel_def retryLoop.simps updateCell_def failuresThenSuccess_def
        example_job_def example_world_def example_cell_def example_prompt_def
        example_variant_def example_scenario_def
        emit_def createModelOutput_def calculateDelay_0_half toDouble_1750 newDate_def MAX_AUTO_RETRIES_def
        Let_def applyData_def)

text \<open>
  Claim C7, amended. Between a failure that is retried and the next provider call the task
  makes one cell update, which sets \<^verbatim>\<open>retrievalStatus\<close> to ERROR and \<^verbatim>\<open>retryTime\<close> to the
  scheduled instant, and then sleeps for the delay. The next provider call is made in the
  world \<open>w2\<close> so reached, where the cell is still in ERROR with that retry time.
\<close>

theorem retry_round_status:
  assumes "cells w cid = Some c"
    and "getCompletion env prompt strm i = Failure msg code True"
    and "i < 10"
  shows "\<exists>w2 c2 t.
           retryLoop env cid strm variant scenario prompt i w =
             retryLoop env cid strm variant scenario prompt (Suc i) w2
         \<and> t = newDate (toDouble (real_of_int (dateNow env i)
                              + calculateDelay i (mathRandom env i)))
         \<and> trace w2 = trace w @
             [ProviderCall i,
              CellUpdate cid
                \<lparr> set_statusCode = Some (Some code), set_errorMessage = Some (Some msg),
                  set_retryTime = Some (Some t), set_retrievalStatus = Some ERROR \<rparr>,
              Sleep (calculateDelay i (mathRandom env i))]
         \<and> cells w2 cid = Some c2
         \<and> retrievalStatus c2 = ERROR \<and> retryTime c2 = Some t
         \<and> (\<exists>w' rest. retryLoop env cid strm variant scenario prompt (Suc i) w2 = Inr w'
                \<and> trace w' = trace w2 @ ProviderCall (Suc i) # rest)"
proof -
  define d where "d = \<lparr> set_statusCode = Some (Some code), set_errorMessage = Some (Some msg),
        set_retryTime = Some (Some (newDate (toDouble (real_of_int (dateNow env i)
                                      + calculateDelay i (mathRandom env i))))),
        set_retrievalStatus = Some ERROR \<rparr>"
  define w2 where "w2 = emit (Sleep (calculateDelay i (mathRandom env i)))
          ((emit (ProviderCall i) w)\<lparr> cells := (cells w)(cid \<mapsto> applyData d c),
                  trace := trace w @ [ProviderCall i, CellUpdate cid d] \<rparr>)"
  have step: "retryLoop env cid strm variant scenario prompt i w =
        retryLoop env cid strm variant scenario prompt (Suc i) w2"
    using assms
    by (simp add: retryLoop_retry updateCell_def d_def w2_def MAX_AUTO_RETRIES_def)
  have c2: "cells w2 cid = Some (applyData d c)" by (simp add: w2_def)
  have t2: "trace w2 = trace w @ [ProviderCall i, CellUpdate cid d,
               Sleep (calculateDelay i (mathRandom env i))]" by (simp add: w2_def)
  have s2: "retrievalStatus (applyData d c) = ERROR"
    "retryTime (applyData d c) = Some (newDate (toDouble (real_of_int (dateNow env i)
                                      + calculateDelay i (mathRandom env i))))"
    by (simp_all add: applyData_def d_def)
  from retryLoop_total[OF c2, of env strm variant scenario prompt "Suc i"]
  obtain w' c' rest' where r:
    "retryLoop env cid strm variant scenario prompt (Suc i) w2 = Inr w'"
    "trace w' = trace w2 @ ProviderCall (Suc i) # rest'"
    by blast
  show ?thesis
    using step c2 t2 s2 r unfolding d_def by blast
qed

theorem retry_round_status_witness:
  "\<exists>w2 c2.
      retryLoop alwaysRetryable ''c1'' False example_variant example_scenario example_prompt 0
        example_world =
      retryLoop alwaysRetryable ''c1'' False example_variant example_scenario example_prompt
        (Suc 0) w2
    \<and> trace w2 =
         [ProviderCall 0,
          CellUpdate ''c1''
            \<lparr> set_statusCode = Some (Some 429), set_errorMessage = Some (Some ''Rate limited''),
              set_retryTime = Some (Some 1750), set_retrievalStatus = Some ERROR \<rparr>,
          Sleep 750]
    \<and> cells w2 ''c1'' = Some c2
    \<and> retrievalStatus c2 = ERROR \<and> retryTime c2 = Some 1750
    \<and> (\<exists>w' rest. retryLoop alwaysRetryable ''c1'' False example_variant example_scenario
                      example_prompt (Suc 0) w2 = Inr w'
           \<and> trace w' = trace w2 @ ProviderCall (Suc 0) # rest)"
  using retry_round_status[of example_world "''c1''" example_cell alwaysRetryable example_prompt
          False 0 "''Rate limited''" 429 example_variant example_scenario]
  by (simp add: example_world_def alwaysRetryable_def calculateDelay_0_half toDouble_1750
        newDate_def)

subsection \<open>The delay\<close>

text \<open>
  Claim C3, as the specification states it, fails on \<^verbatim>\<open>calculateDelay\<close>: the delay is
  computed in doubles, the product and the sum each rounded. For the first attempt and the
  sample 0.3 (the double nearest to it) the delay is exactly 650, whereas
  \<open>min(15000, 500 \<cdot> 2^0) \<cdot> (1 + r)\<close> is below 650.
\<close>

theorem calculateDelay_equality_counterexample:
  "calculateDelay 0 sample_0_3 = 650
   \<and> min 15000 (500 * 2 ^ 0) * (1 + sample_0_3) < (650::real)"
proof -
  have "calculateDelay 0 sample_0_3 = toDouble (500 + toDouble (sample_0_3 * 500))"
    by (simp add: calculateDelay_unfold)
  then have "calculateDelay 0 sample_0_3 = 650"
    by (simp only: jitter_0_3) (simp add: toDouble_650)
  moreover have "min 15000 (500 * 2 ^ 0) * (1 + sample_0_3) < (650::real)"
    by (simp add: sample_0_3_def)
  ultimately show ?thesis by simp
qed

text \<open>
  The upper end of the interval is reached: with the base delay 15000 and the largest
  double below 1 as sample, both roundings go up and the delay is 30000.
\<close>

lemma calculateDelay_reaches_upper: "calculateDelay 5 (1 - 1 / 2 ^ 53) = 30000"
proof -
  have "toDouble (15000 - 15000 / 2 ^ 53) = of_int (15000 * 2 ^ 39 - 1) * 2 powi (13 - 52)"
    by (rule toDouble_eval) (simp_all add: roundHalfEven_def Let_def)
  also have "\<dots> = 15000 - 1 / 2 ^ 39" by (simp add: power_int_minus field_simps)
  finally have j: "toDouble (15000 - 15000 / 2 ^ 53) = 15000 - 1 / 2 ^ 39" .
  have "toDouble (15000 + (15000 - 1 / 2 ^ 39)) = of_int (30000 * 2 ^ 38) * 2 powi (14 - 52)"
    by (rule toDouble_eval) (simp_all add: roundHalfEven_def Let_def)
  also have "\<dots> = 30000" by (simp add: power_int_minus field_simps)
  finally have s: "toDouble (15000 + (15000 - 1 / 2 ^ 39)) = 30000" .
  have "calculateDelay 5 (1 - 1 / 2 ^ 53)
          = toDouble (15000 + toDouble (15000 - 15000 / 2 ^ 53))"
    by (simp add: calculateDelay_unfold algebra_simps)
  then show ?thesis by (simp only: j s)
qed

text \<open>
  Claim C3, amended. For an attempt index \<open>i\<close> and a jitter sample \<open>r\<close> with \<open>0 \<le> r < 1\<close>, the
  delay is the double sum of \<open>b = min(15000, 500 \<cdot> 2^i)\<close> and the double product \<open>r \<cdot> b\<close>. It
  differs from \<open>b \<cdot> (1 + r)\<close> by at most \<open>2^(-38)\<close> milliseconds, and it lies in the closed
  interval from \<open>b\<close> to \<open>2 \<cdot> b\<close>.
\<close>

theorem calculateDelay_bounds:
  assumes "0 \<le> r" and "r < 1"
  shows "calculateDelay i r =
           toDouble (min 15000 (500 * 2 ^ i) + toDouble (r * min 15000 (500 * 2 ^ i)))
       \<and> \<bar>calculateDelay i r - min 15000 (500 * 2 ^ i) * (1 + r)\<bar> \<le> 1 / 2 ^ 38
       \<and> min 15000 (500 * 2 ^ i) \<le> calculateDelay i r
       \<and> calculateDelay i r \<le> 2 * min 15000 (500 * 2 ^ i)"
proof -
  define b :: int where "b = min 15000 (500 * 2 ^ i)"
  define base :: real where "base = min 15000 (500 * 2 ^ i)"
  have base: "base = of_int b" unfolding base_def b_def by (rule baseDelay_int)
  have b0: "0 < base" and b1: "base \<le> 15000" by (simp_all add: base_def)
  define x1 where "x1 = r * base"
  define jitter where "jitter = toDouble x1"
  define x2 where "x2 = base + jitter"
  have cd: "calculateDelay i r = toDouble x2"
    unfolding calculateDelay_unfold x2_def jitter_def x1_def base_def ..
  have lt: "x1 < base" unfolding x1_def using assms(2) b0 by simp
  have nn: "0 \<le> x1" unfolding x1_def using assms(1) b0 by simp
  have x1: "0 \<le> x1" "x1 \<le> base" "x1 < 15000"
    using lt nn b1 by linarith+
  have j: "of_int 0 \<le> jitter \<and> jitter \<le> of_int b"
    unfolding jitter_def using x1 base by (intro toDouble_between_ints) simp_all
  then have j0: "0 \<le> jitter" and j1: "jitter \<le> base" using base by simp_all
  have x2: "of_int b \<le> toDouble x2 \<and> toDouble x2 \<le> of_int (2 * b)"
    using j0 j1 b1 base unfolding x2_def by (intro toDouble_between_ints) simp_all
  have e1: "\<bar>jitter - x1\<bar> \<le> 2 powi (13 - 53)"
    unfolding jitter_def using x1 by (intro toDouble_error_below) simp_all
  have e2: "\<bar>toDouble x2 - x2\<bar> \<le> 2 powi (14 - 53)"
    using j0 j1 b0 b1 unfolding x2_def by (intro toDouble_error_below) simp_all
  have p: "(2::real) powi (13 - 53) + 2 powi (14 - 53) \<le> 1 / 2 ^ 38"
    by (simp add: power_int_def field_simps)
  have "calculateDelay i r - base * (1 + r) = (toDouble x2 - x2) + (jitter - x1)"
    unfolding cd x2_def x1_def by (simp add: algebra_simps)
  then have B: "\<bar>calculateDelay i r - base * (1 + r)\<bar> \<le> 1 / 2 ^ 38"
    using e1 e2 p by linarith
  have A: "calculateDelay i r = toDouble (base + toDouble (r * base))"
    unfolding base_def by (rule calculateDelay_unfold)
  have C: "base \<le> calculateDelay i r" "calculateDelay i r \<le> 2 * base"
    using x2 cd base by simp_all
  show ?thesis using A B C unfolding base_def by blast
qed

theorem calculateDelay_bounds_witness:
  "(0::real) \<le> sample_0_3 \<and> sample_0_3 < 1
   \<and> \<bar>calculateDelay 0 sample_0_3 - 500 * (1 + sample_0_3)\<bar> \<le> 1 / 2 ^ 38
   \<and> 500 \<le> calculateDelay 0 sample_0_3 \<and> calculateDelay 0 sample_0_3 \<le> 1000
   \<and> 15000 \<le> calculateDelay 5 (1 / 2) \<and> calculateDelay 5 (1 / 2) \<le> 30000"
proof -
  have h0: "0 \<le> sample_0_3" "sample_0_3 < 1" by (simp_all add: sample_0_3_def)
  have h5: "(0::real) \<le> 1 / 2" "(1::real) / 2 < 1" by simp_all
  note a = calculateDelay_bounds[OF h0, of 0, THEN conjunct2]
  note b = calculateDelay_bounds[OF h5, of 5, THEN conjunct2]
  show ?thesis using h0 a b by simp
qed

subsection \<open>The guard\<close>

text \<open>
  Claim C4. When the cell exists and its \<^verbatim>\<open>retrievalStatus\<close> is not PENDING, the task returns
  the world it was given: the trace is unchanged, so there is no provider call and no cell
  update, and every column of every cell is as before.
\<close>

theorem not_pending_returns_immediately:
  assumes "cells w (cellId task) = Some cell"
    and "retrievalStatus cell \<noteq> PENDING"
  shows "queryModel env task w = Inr w"
  using assms by (simp add: queryModel_def)

theorem not_pending_returns_immediately_witness:
  "cells (example_world\<lparr> cells := [''c1'' \<mapsto> in_progress_cell] \<rparr>) (cellId example_job)
     = Some in_progress_cell
   \<and> retrievalStatus in_progress_cell \<noteq> PENDING
   \<and> queryModel alwaysRetryable example_job
        (example_world\<lparr> cells := [''c1'' \<mapsto> in_progress_cell] \<rparr>)
      = Inr (example_world\<lparr> cells := [''c1'' \<mapsto> in_progress_cell] \<rparr>)"
  using not_pending_returns_immediately[of
          "example_world\<lparr> cells := [''c1'' \<mapsto> in_progress_cell] \<rparr>"
          example_job in_progress_cell alwaysRetryable]
  by (simp add: example_job_def example_world_def example_cell_def in_progress_cell_def)

subsection \<open>The terminal error paths\<close>

text \<open>
  A run whose first attempt fails with \<^verbatim>\<open>autoRetry\<close> set and whose second attempt succeeds
  leaves the cell in COMPLETE with the retry time of the first failure still stored. When
  the prompt variant is then removed and the cell is queued again, the cell ends in ERROR
  with that same retry time.
\<close>

lemma stale_retryTime_reachable:
  "map_option retrievalStatus
     (finalCell ''c1'' (queryModel (failuresThenSuccess 1) example_job example_world))
   = Some COMPLETE"
  "map_option retryTime
     (finalCell ''c1'' (queryModel (failuresThenSuccess 1) example_job example_world))
   = Some (Some 1750)"
  "map_option retrievalStatus
     (finalCell ''c1''
        (case queryModel (failuresThenSuccess 1) example_job example_world of
           Inl e \<Rightarrow> Inl e
         | Inr w1 \<Rightarrow> queueQueryModel (failuresThenSuccess 1) ''c1'' False
                       (w1\<lparr> promptVariants := Map.empty \<rparr>)))
   = Some ERROR"
  "map_option retryTime
     (finalCell ''c1''
        (case queryModel (failuresThenSuccess 1) example_job example_world of
           Inl e \<Rightarrow> Inl e
         | Inr w1 \<Rightarrow> queueQueryModel (failuresThenSuccess 1) ''c1'' False
                       (w1\<lparr> promptVariants := Map.empty \<rparr>)))
   = Some (Some 1750)"
  by (simp_all add: finalCell_def queueQueryModel_def queryModel_def retryLoop.simps updateCell_def failuresThenSuccess_def
        example_job_def example_world_def example_cell_def example_prompt_def
        example_variant_def example_scenario_def
        emit_def createModelOutput_def calculateDelay_0_half toDouble_1750 newDate_def MAX_AUTO_RETRIES_def
        Let_def applyData_def)

text \<open>
  Claim C9. On each terminal error path the update names \<^verbatim>\<open>statusCode\<close>, \<^verbatim>\<open>errorMessage\<close>
  and \<^verbatim>\<open>retrievalStatus = ERROR\<close> and not \<^verbatim>\<open>retryTime\<close>. When the cell is missing that update
  finds no row and is rejected, so nothing is written. When the prompt variant or the test
  scenario is missing, or the prompt cannot be constructed, the cell ends with the three
  columns set and every other column, \<^verbatim>\<open>retryTime\<close> among them, as it was at pickup: a retry
  time left by an earlier run stays on the cell in its terminal ERROR state.
\<close>

theorem terminal_error_paths_keep_retryTime:
  "(cells w (cellId task) = None \<longrightarrow>
      queryModel env task w =
        updateCell (cellId task)
          \<lparr> set_statusCode = Some (Some 404), set_errorMessage = Some (Some ''Cell not found''),
            set_retryTime = None, set_retrievalStatus = Some ERROR \<rparr> w
    \<and> queryModel env task w = Inl RecordNotFound)
 \<and> (cells w (cellId task) = Some cell \<and> retrievalStatus cell = PENDING
      \<and> promptVariants w (promptVariantId cell) = None \<longrightarrow>
      queryModel env task w =
        Inr (w\<lparr> cells := (cells w)(cellId task \<mapsto>
                    cell\<lparr> statusCode := Some 404,
                          errorMessage := Some ''Prompt Variant not found'',
                          retrievalStatus := ERROR \<rparr>),
                trace := trace w @
                  [CellUpdate (cellId task)
                     \<lparr> set_statusCode = None, set_errorMessage = None,
                       set_retryTime = None, set_retrievalStatus = Some IN_PROGRESS \<rparr>,
                   CellUpdate (cellId task)
                     \<lparr> set_statusCode = Some (Some 404),
                       set_errorMessage = Some (Some ''Prompt Variant not found''),
                       set_retryTime = None, set_retrievalStatus = Some ERROR \<rparr>] \<rparr>))
 \<and> (cells w (cellId task) = Some cell \<and> retrievalStatus cell = PENDING
      \<and> promptVariants w (promptVariantId cell) = Some variant
      \<and> testScenarios w (testScenarioId cell) = None \<longrightarrow>
      queryModel env task w =
        Inr (w\<lparr> cells := (cells w)(cellId task \<mapsto>
                    cell\<lparr> statusCode := Some 404,
                          errorMessage := Some ''Scenario not found'',
                          retrievalStatus := ERROR \<rparr>),
                trace := trace w @
                  [CellUpdate (cellId task)
                     \<lparr> set_statusCode = None, set_errorMessage = None,
                       set_retryTime = None, set_retrievalStatus = Some IN_PROGRESS \<rparr>,
                   CellUpdate (cellId task)
                     \<lparr> set_statusCode = Some (Some 404),
                       set_errorMessage = Some (Some ''Scenario not found''),
                       set_retryTime = None, set_retrievalStatus = Some ERROR \<rparr>] \<rparr>))
 \<and> (cells w (cellId task) = Some cell \<and> retrievalStatus cell = PENDING
      \<and> promptVariants w (promptVariantId cell) = Some variant
      \<and> testScenarios w (testScenarioId cell) = Some scenario
      \<and> parseConstructFn env (constructFn variant) (variableValues scenario) = Inl err \<longrightarrow>
      queryModel env task w =
        Inr (w\<lparr> cells := (cells w)(cellId task \<mapsto>
                    cell\<lparr> statusCode := Some 400,
                          errorMessage := Some err,
                          retrievalStatus := ERROR \<rparr>),
                trace := trace w @
                  [CellUpdate (cellId task)
                     \<lparr> set_statusCode = None, set_errorMessage = None,
                       set_retryTime = None, set_retrievalStatus = Some IN_PROGRESS \<rparr>,
                   CellUpdate (cellId task)
                     \<lparr> set_statusCode = Some (Some 400),
                       set_errorMessage = Some (Some err),
                       set_retryTime = None, set_retrievalStatus = Some ERROR \<rparr>] \<rparr>))"
proof (intro conjI impI)
  assume "cells w (cellId task) = None"
  then show "queryModel env task w =
        updateCell (cellId task)
          \<lparr> set_statusCode = Some (Some 404), set_errorMessage = Some (Some ''Cell not found''),
            set_retryTime = None, set_retrievalStatus = Some ERROR \<rparr> w"
    and "queryModel env task w = Inl RecordNotFound"
    by (simp_all add: queryModel_def updateCell_def)
next
  assume "cells w (cellId task) = Some cell \<and> retrievalStatus cell = PENDING
      \<and> promptVariants w (promptVariantId cell) = None"
  then show "queryModel env task w =
        Inr (w\<lparr> cells := (cells w)(cellId task \<mapsto>
                    cell\<lparr> statusCode := Some 404,
                          errorMessage := Some ''Prompt Variant not found'',
                          retrievalStatus := ERROR \<rparr>),
                trace := trace w @
                  [CellUpdate (cellId task)
                     \<lparr> set_statusCode = None, set_errorMessage = None,
                       set_retryTime = None, set_retrievalStatus = Some IN_PROGRESS \<rparr>,
                   CellUpdate (cellId task)
                     \<lparr> set_statusCode = Some (Some 404),
                       set_errorMessage = Some (Some ''Prompt Variant not found''),
                       set_retryTime = None, set_retrievalStatus = Some ERROR \<rparr>] \<rparr>)"
    by (simp add: queryModel_def updateCell_def applyData_def)
next
  assume "cells w (cellId task) = Some cell \<and> retrievalStatus cell = PENDING
      \<and> promptVariants w (promptVariantId cell) = Some variant
      \<and> testScenarios w (testScenarioId cell) = None"
  then show "queryModel env task w =
        Inr (w\<lparr> cells := (cells w)(cellId task \<mapsto>
                    cell\<lparr> statusCode := Some 404,
                          errorMessage := Some ''Scenario not found'',
                          retrievalStatus := ERROR \<rparr>),
                trace := trace w @
                  [CellUpdate (cellId task)
                     \<lparr> set_statusCode = None, set_errorMessage = None,
                       set_retryTime = None, set_retrievalStatus = Some IN_PROGRESS \<rparr>,
                   CellUpdate (cellId task)
                     \<lparr> set_statusCode = Some (Some 404),
                       set_errorMessage = Some (Some ''Scenario not found''),
                       set_retryTime = None, set_retrievalStatus = Some ERROR \<rparr>] \<rparr>)"
    by (simp add: queryModel_def updateCell_def applyData_def)
next
  assume "cells w (cellId task) = Some cell \<and> retrievalStatus cell = PENDING
      \<and> promptVariants w (promptVariantId cell) = Some variant
      \<and> testScenarios w (testScenarioId cell) = Some scenario
      \<and> parseConstructFn env (constructFn variant) (variableValues scenario) = Inl err"
  then show "queryModel env task w =
        Inr (w\<lparr> cells := (cells w)(cellId task \<mapsto>
                    cell\<lparr> statusCode := Some 400,
                          errorMessage := Some err,
                          retrievalStatus := ERROR \<rparr>),
                trace := trace w @
                  [CellUpdate (cellId task)
                     \<lparr> set_statusCode = None, set_errorMessage = None,
                       set_retryTime = None, set_retrievalStatus = Some IN_PROGRESS \<rparr>,
                   CellUpdate (cellId task)
                     \<lparr> set_statusCode = Some (Some 400),
                       set_errorMessage = Some (Some err),
                       set_retryTime = None, set_retrievalStatus = Some ERROR \<rparr>] \<rparr>)"
    by (simp add: queryModel_def updateCell_def applyData_def)
qed

theorem terminal_error_paths_keep_retryTime_witness:
  "queryModel alwaysRetryable \<lparr> cellId = ''c2'', stream = False \<rparr> example_world
     = Inl RecordNotFound
   \<and> map_option (\<lambda>c. (retrievalStatus c, statusCode c, errorMessage c, retryTime c))
        (finalCell ''c1''
           (queryModel alwaysRetryable example_job
              (example_world\<lparr> cells := [''c1'' \<mapsto> stale_cell],
                              promptVariants := Map.empty \<rparr>)))
     = Some (ERROR, Some 404, Some ''Prompt Variant not found'', Some 1750)
   \<and> map_option (\<lambda>c. (retrievalStatus c, statusCode c, errorMessage c, retryTime c))
        (finalCell ''c1''
           (queryModel alwaysRetryable example_job
              (example_world\<lparr> cells := [''c1'' \<mapsto> stale_cell],
                              testScenarios := Map.empty \<rparr>)))
     = Some (ERROR, Some 404, Some ''Scenario not found'', Some 1750)
   \<and> map_option (\<lambda>c. (retrievalStatus c, statusCode c, errorMessage c, retryTime c))
        (finalCell ''c1''
           (queryModel badConstructFn example_job
              (example_world\<lparr> cells := [''c1'' \<mapsto> stale_cell] \<rparr>)))
     = Some (ERROR, Some 400, Some ''Syntax error'', Some 1750)"
  using terminal_error_paths_keep_retryTime[where w = example_world
          and task = "\<lparr> cellId = ''c2'', stream = False \<rparr>" and env = alwaysRetryable]
        terminal_error_paths_keep_retryTime[where
          w = "example_world\<lparr> cells := [''c1'' \<mapsto> stale_cell], promptVariants := Map.empty \<rparr>"
          and task = example_job and cell = stale_cell and env = alwaysRetryable]
        terminal_error_paths_keep_retryTime[where
          w = "example_world\<lparr> cells := [''c1'' \<mapsto> stale_cell], testScenarios := Map.empty \<rparr>"
          and task = example_job and cell = stale_cell and env = alwaysRetryable
          and variant = example_variant]
        terminal_error_paths_keep_retryTime[where
          w = "example_world\<lparr> cells := [''c1'' \<mapsto> stale_cell] \<rparr>"
          and task = example_job and cell = stale_cell and env = badConstructFn
          and variant = example_variant and scenario = example_scenario
          and err = "''Syntax error''"]
  by (simp add: finalCell_def example_world_def example_job_def example_cell_def
        stale_cell_def example_variant_def example_scenario_def badConstructFn_def
        updateCell_def)


section \<open>Properties of cache propagation and of the LLMRelabel kind\<close>

subsection \<open>The WHERE clause\<close>

lemma sqlEq_Some_right [simp]: "sqlEq a (Some y) = (a = Some y)"
  by (cases a) auto

lemma sqlEq_Some_left [simp]: "sqlEq (Some x) b = (b = Some x)"
  by (cases b) auto

lemma sqlEq_iff: "sqlEq a b = (a \<noteq> None \<and> b = a)"
  by (cases a; cases b) auto

lemma cacheWhere_iff:
  "cacheWhere mfs node ne cpne =
     (ne_nodeId ne = node_id node \<and> ne_status ne = NE_PENDING
      \<and> (cpne_nodeHash cpne = Some (node_hash node) \<or> cpne_nodeId cpne = Some (node_id node))
      \<and> (NodeEntryPersistentId \<in> set mfs
            \<longrightarrow> cpne_nodeEntryPersistentId cpne = Some (ne_persistentId ne))
      \<and> (IncomingInputHash \<in> set mfs
            \<longrightarrow> ne_inputHash ne \<noteq> None \<and> cpne_incomingInputHash cpne = ne_inputHash ne)
      \<and> (IncomingOutputHash \<in> set mfs
            \<longrightarrow> ne_outputHash ne \<noteq> None \<and> cpne_incomingOutputHash cpne = ne_outputHash ne))"
  unfolding cacheWhere_def sqlEq_iff[of "ne_inputHash ne"] sqlEq_iff[of "ne_outputHash ne"]
  by auto

lemma find_cases:
  "(find P xs = None \<and> (\<forall>x\<in>set xs. \<not> P x)) \<or> (\<exists>x\<in>set xs. P x \<and> find P xs = Some x)"
  by (induction xs) auto

lemma cacheWhere_explicit:
  "cacheWhere mfs node ne cpne =
     (ne_nodeId ne = node_id node \<and> ne_status ne = NE_PENDING \<and> explicitMatch mfs node ne cpne)"
  unfolding cacheWhere_iff explicitMatch_def by blast


subsection \<open>One row under updateCached\<close>

lemma updateCached_row:
  assumes "cacheMatchFields (nodePropertiesByType (node_type node)) = Some mfs"
    and "cacheWriteFields (nodePropertiesByType (node_type node)) = Some wfs"
    and "k < length (nodeEntries db)"
  shows "if \<exists>cpne\<in>set (cachedProcessedEntries db). cacheWhere mfs node (nodeEntries db ! k) cpne
         then \<exists>cpne\<in>set (cachedProcessedEntries db).
                cacheWhere mfs node (nodeEntries db ! k) cpne
              \<and> nodeEntries (updateCached nodePropertiesByType node db) ! k =
                  cacheSet wfs cpne (nodeEntries db ! k)
         else nodeEntries (updateCached nodePropertiesByType node db) ! k = nodeEntries db ! k"
  using find_cases[of "cacheWhere mfs node (nodeEntries db ! k)" "cachedProcessedEntries db"]
    assms
  by (auto simp: updateCached_def)


lemma updateCached_frame:
  "length (nodeEntries (updateCached nodePropertiesByType node db)) = length (nodeEntries db)"
  "cachedProcessedEntries (updateCached nodePropertiesByType node db) = cachedProcessedEntries db"
  by (simp_all add: updateCached_def Let_def split: option.splits)

lemma cacheSet_llmRelabel:
  "cacheSet [OutgoingOutputHash] cpne ne =
     ne\<lparr> ne_status := NE_PROCESSED,
         ne_outputHash := cpne_outgoingOutputHash cpne,
         ne_originalOutputHash := ne_outputHash ne \<rparr>"
  by (simp add: cacheSet_def)

lemma updateCached_row_explicit:
  assumes "cacheMatchFields (nodePropertiesByType (node_type node)) = Some mfs"
    and "cacheWriteFields (nodePropertiesByType (node_type node)) = Some wfs"
    and "k < length (nodeEntries db)"
  shows "if ne_nodeId (nodeEntries db ! k) = node_id node
            \<and> ne_status (nodeEntries db ! k) = NE_PENDING
            \<and> filter (explicitMatch mfs node (nodeEntries db ! k)) (cachedProcessedEntries db) \<noteq> []
         then \<exists>cpne\<in>set (filter (explicitMatch mfs node (nodeEntries db ! k))
                              (cachedProcessedEntries db)).
                nodeEntries (updateCached nodePropertiesByType node db) ! k =
                  cacheSet wfs cpne (nodeEntries db ! k)
         else nodeEntries (updateCached nodePropertiesByType node db) ! k = nodeEntries db ! k"
proof -
  let ?ne = "nodeEntries db ! k"
  let ?A = "ne_nodeId ?ne = node_id node \<and> ne_status ?ne = NE_PENDING"
  note row = updateCached_row[where nodePropertiesByType = nodePropertiesByType and node = node,
      OF assms]
  show ?thesis
  proof (cases "?A \<and> (\<exists>cpne\<in>set (cachedProcessedEntries db). explicitMatch mfs node ?ne cpne)")
    case True
    then have "\<exists>cpne\<in>set (cachedProcessedEntries db). cacheWhere mfs node ?ne cpne"
      unfolding cacheWhere_explicit by blast
    with row obtain cpne where c: "cpne \<in> set (cachedProcessedEntries db)"
      "cacheWhere mfs node ?ne cpne"
      "nodeEntries (updateCached nodePropertiesByType node db) ! k = cacheSet wfs cpne ?ne"
      by (auto split: if_splits)
    from c(1,2) have mem:
      "cpne \<in> set (filter (explicitMatch mfs node ?ne) (cachedProcessedEntries db))"
      unfolding cacheWhere_explicit by simp
    then have "filter (explicitMatch mfs node ?ne) (cachedProcessedEntries db) \<noteq> []"
      by (metis empty_iff empty_set)
    with True have cond: "ne_nodeId ?ne = node_id node \<and> ne_status ?ne = NE_PENDING
        \<and> filter (explicitMatch mfs node ?ne) (cachedProcessedEntries db) \<noteq> []"
      by blast
    have ex: "\<exists>cpne\<in>set (filter (explicitMatch mfs node ?ne) (cachedProcessedEntries db)).
                nodeEntries (updateCached nodePropertiesByType node db) ! k =
                  cacheSet wfs cpne ?ne"
      using mem c(3) by blast
    show ?thesis unfolding if_P[OF cond] by (rule ex)
  next
    case False
    then have n: "\<not> (\<exists>cpne\<in>set (cachedProcessedEntries db). cacheWhere mfs node ?ne cpne)"
      unfolding cacheWhere_explicit by blast
    with row have u: "nodeEntries (updateCached nodePropertiesByType node db) ! k = ?ne"
      by (simp only: if_False)
    from False have ncond: "\<not> (ne_nodeId ?ne = node_id node \<and> ne_status ?ne = NE_PENDING
        \<and> filter (explicitMatch mfs node ?ne) (cachedProcessedEntries db) \<noteq> [])"
      unfolding filter_empty_conv by blast
    show ?thesis unfolding if_not_P[OF ncond] by (rule u)
  qed
qed


lemma explicitMatch_llmRelabel:
  "explicitMatch [IncomingInputHash] node ne cpne =
     ((cpne_nodeHash cpne = Some (node_hash node) \<or> cpne_nodeId cpne = Some (node_id node))
      \<and> ne_inputHash ne \<noteq> None \<and> cpne_incomingInputHash cpne = ne_inputHash ne)"
  by (simp add: explicitMatch_def)

text \<open>
  On the example: \<^verbatim>\<open>e1\<close> is served by the record keyed by the node's hash and \<^verbatim>\<open>e5\<close> by the
  record keyed by the node's id; \<^verbatim>\<open>e2\<close> has no record of this node, \<^verbatim>\<open>e3\<close> is not PENDING
  and \<^verbatim>\<open>e4\<close> belongs to another node.
\<close>

lemma updateCached_table:
  "nodeEntries (updateCached example_registry example_node example_db) =
     [(example_entry ''e1'' ''n1'' NE_PROCESSED ''in1'')
        \<lparr> ne_outputHash := Some ''out1'', ne_originalOutputHash := Some ''old'' \<rparr>,
      example_entry ''e2'' ''n1'' NE_PENDING ''in2'',
      example_entry ''e3'' ''n1'' NE_ERROR ''in1'',
      example_entry ''e4'' ''n2'' NE_PENDING ''in1'',
      (example_entry ''e5'' ''n1'' NE_PROCESSED ''in5'')
        \<lparr> ne_outputHash := Some ''out5'', ne_originalOutputHash := Some ''old'' \<rparr>]"
  by (simp add: updateCached_def example_registry_def example_node_def example_db_def
        example_entry_def example_cached_def llmRelabelProperties_def cacheWhere_def
        cacheSet_def)

text \<open>
  Claim C5. Let the kind of the node declare both cache fields, and let \<open>ne\<close> be a row of
  \<^verbatim>\<open>NodeEntry\<close> and \<open>ne'\<close> the same row after \<^verbatim>\<open>updateCached\<close>. A cache record matches when
  its \<^verbatim>\<open>nodeHash\<close> is the node's hash or its \<^verbatim>\<open>nodeId\<close> is the node's id, and every declared
  match field is equal on the two rows (a NULL is equal to nothing). If \<open>ne\<close> belongs to the
  node, is PENDING and has a matching record, then \<open>ne'\<close> is \<open>ne\<close> with status PROCESSED and
  the declared write fields taken from one matching record (with \<^verbatim>\<open>outgoingOutputHash\<close> the
  old output hash is kept as \<^verbatim>\<open>originalOutputHash\<close>); otherwise \<open>ne'\<close> is \<open>ne\<close>. The
  statement is one SQL update, it leaves the cache table alone, and it has no access to a
  row transform. For LLMRelabel the match is on \<^verbatim>\<open>inputHash = incomingInputHash\<close> and the
  write is \<^verbatim>\<open>outputHash := outgoingOutputHash\<close>.
\<close>

theorem updateCached_cache_hits:
  fixes nodePropertiesByType :: "string \<Rightarrow> NodeProperties"
    and node :: "'a Node_scheme"
    and db :: PipelineDb
    and k :: nat
    and matchFields :: "CacheMatchField list"
    and writeFields :: "CacheWriteField list"
  defines "ne \<equiv> nodeEntries db ! k"
    and "ne' \<equiv> nodeEntries (updateCached nodePropertiesByType node db) ! k"
  defines "hits \<equiv> filter
              (\<lambda>cpne.
                 (cpne_nodeHash cpne = Some (node_hash node)
                    \<or> cpne_nodeId cpne = Some (node_id node))
               \<and> (NodeEntryPersistentId \<in> set matchFields
                     \<longrightarrow> cpne_nodeEntryPersistentId cpne = Some (ne_persistentId ne))
               \<and> (IncomingInputHash \<in> set matchFields
                     \<longrightarrow> ne_inputHash ne \<noteq> None
                         \<and> cpne_incomingInputHash cpne = ne_inputHash ne)
               \<and> (IncomingOutputHash \<in> set matchFields
                     \<longrightarrow> ne_outputHash ne \<noteq> None
                         \<and> cpne_incomingOutputHash cpne = ne_outputHash ne))
              (cachedProcessedEntries db)"
    and "relabelHits \<equiv> filter
              (\<lambda>cpne.
                 (cpne_nodeHash cpne = Some (node_hash node)
                    \<or> cpne_nodeId cpne = Some (node_id node))
               \<and> ne_inputHash ne \<noteq> None
               \<and> cpne_incomingInputHash cpne = ne_inputHash ne)
              (cachedProcessedEntries db)"
  assumes k: "k < length (nodeEntries db)"
  shows
  "(cacheMatchFields (nodePropertiesByType (node_type node)) = Some matchFields
      \<and> cacheWriteFields (nodePropertiesByType (node_type node)) = Some writeFields \<longrightarrow>
      length (nodeEntries (updateCached nodePropertiesByType node db)) = length (nodeEntries db)
    \<and> cachedProcessedEntries (updateCached nodePropertiesByType node db)
        = cachedProcessedEntries db
    \<and> executed (updateCached nodePropertiesByType node db) = Suc (executed db)
    \<and> (if ne_nodeId ne = node_id node \<and> ne_status ne = NE_PENDING \<and> hits \<noteq> []
           then \<exists>cpne\<in>set hits.
                  ne' = ne\<lparr> ne_status := NE_PROCESSED,
                            ne_inputHash :=
                              (if OutgoingInputHash \<in> set writeFields
                               then cpne_outgoingInputHash cpne else ne_inputHash ne),
                            ne_outputHash :=
                              (if OutgoingOutputHash \<in> set writeFields
                               then cpne_outgoingOutputHash cpne else ne_outputHash ne),
                            ne_originalOutputHash :=
                              (if OutgoingOutputHash \<in> set writeFields
                               then ne_outputHash ne else ne_originalOutputHash ne),
                            ne_split :=
                              (if OutgoingSplit \<in> set writeFields
                               then cpne_outgoingSplit cpne else ne_split ne) \<rparr>
           else ne' = ne))
 \<and> (nodePropertiesByType (node_type node) = llmRelabelProperties \<longrightarrow>
      (if ne_nodeId ne = node_id node \<and> ne_status ne = NE_PENDING \<and> relabelHits \<noteq> []
           then \<exists>cpne\<in>set relabelHits.
                  ne' = ne\<lparr> ne_status := NE_PROCESSED,
                            ne_outputHash := cpne_outgoingOutputHash cpne,
                            ne_originalOutputHash := ne_outputHash ne \<rparr>
           else ne' = ne))"
proof (intro conjI impI)
  assume a: "cacheMatchFields (nodePropertiesByType (node_type node)) = Some matchFields
      \<and> cacheWriteFields (nodePropertiesByType (node_type node)) = Some writeFields"
  show "length (nodeEntries (updateCached nodePropertiesByType node db)) = length (nodeEntries db)"
    by (rule updateCached_frame)
  show "cachedProcessedEntries (updateCached nodePropertiesByType node db)
        = cachedProcessedEntries db"
    by (rule updateCached_frame)
  show "executed (updateCached nodePropertiesByType node db) = Suc (executed db)"
    using a by (simp add: updateCached_def)
  have row: "if ne_nodeId (nodeEntries db ! k) = node_id node
            \<and> ne_status (nodeEntries db ! k) = NE_PENDING
            \<and> filter (explicitMatch matchFields node (nodeEntries db ! k))
                 (cachedProcessedEntries db) \<noteq> []
         then \<exists>cpne\<in>set (filter (explicitMatch matchFields node (nodeEntries db ! k))
                              (cachedProcessedEntries db)).
                nodeEntries (updateCached nodePropertiesByType node db) ! k =
                  cacheSet writeFields cpne (nodeEntries db ! k)
         else nodeEntries (updateCached nodePropertiesByType node db) ! k = nodeEntries db ! k"
    using a k by (intro updateCached_row_explicit) simp_all
  show "if ne_nodeId ne = node_id node \<and> ne_status ne = NE_PENDING \<and> hits \<noteq> []
           then \<exists>cpne\<in>set hits.
                  ne' = ne\<lparr> ne_status := NE_PROCESSED,
                            ne_inputHash :=
                              (if OutgoingInputHash \<in> set writeFields
                               then cpne_outgoingInputHash cpne else ne_inputHash ne),
                            ne_outputHash :=
                              (if OutgoingOutputHash \<in> set writeFields
                               then cpne_outgoingOutputHash cpne else ne_outputHash ne),
                            ne_originalOutputHash :=
                              (if OutgoingOutputHash \<in> set writeFields
                               then ne_outputHash ne else ne_originalOutputHash ne),
                            ne_split :=
                              (if OutgoingSplit \<in> set writeFields
                               then cpne_outgoingSplit cpne else ne_split ne) \<rparr>
           else ne' = ne"
    using row unfolding ne_def ne'_def hits_def explicitMatch_def[abs_def] cacheSet_def .
next
  assume a: "nodePropertiesByType (node_type node) = llmRelabelProperties"
  then have d: "cacheMatchFields (nodePropertiesByType (node_type node)) = Some [IncomingInputHash]"
    "cacheWriteFields (nodePropertiesByType (node_type node)) = Some [OutgoingOutputHash]"
    by (simp_all add: llmRelabelProperties_def)
  have row: "if ne_nodeId (nodeEntries db ! k) = node_id node
            \<and> ne_status (nodeEntries db ! k) = NE_PENDING
            \<and> filter (explicitMatch [IncomingInputHash] node (nodeEntries db ! k))
                 (cachedProcessedEntries db) \<noteq> []
         then \<exists>cpne\<in>set (filter (explicitMatch [IncomingInputHash] node (nodeEntries db ! k))
                              (cachedProcessedEntries db)).
                nodeEntries (updateCached nodePropertiesByType node db) ! k =
                  cacheSet [OutgoingOutputHash] cpne (nodeEntries db ! k)
         else nodeEntries (updateCached nodePropertiesByType node db) ! k = nodeEntries db ! k"
    using d k by (intro updateCached_row_explicit) simp_all
  have m: "explicitMatch [IncomingInputHash] node (nodeEntries db ! k) =
     (\<lambda>cpne. (cpne_nodeHash cpne = Some (node_hash node)
                    \<or> cpne_nodeId cpne = Some (node_id node))
               \<and> ne_inputHash (nodeEntries db ! k) \<noteq> None
               \<and> cpne_incomingInputHash cpne = ne_inputHash (nodeEntries db ! k))"
    by (rule ext) (rule explicitMatch_llmRelabel)
  show "if ne_nodeId ne = node_id node \<and> ne_status ne = NE_PENDING \<and> relabelHits \<noteq> []
           then \<exists>cpne\<in>set relabelHits.
                  ne' = ne\<lparr> ne_status := NE_PROCESSED,
                            ne_outputHash := cpne_outgoingOutputHash cpne,
                            ne_originalOutputHash := ne_outputHash ne \<rparr>
           else ne' = ne"
    using row unfolding ne_def ne'_def relabelHits_def m cacheSet_llmRelabel .
qed

theorem updateCached_cache_hits_witness:
  "nodeEntries (updateCached example_registry example_node example_db) ! 0 =
     (example_entry ''e1'' ''n1'' NE_PROCESSED ''in1'')
        \<lparr> ne_outputHash := Some ''out1'', ne_originalOutputHash := Some ''old'' \<rparr>
   \<and> nodeEntries (updateCached example_registry example_node example_db) ! 1 =
       example_entry ''e2'' ''n1'' NE_PENDING ''in2''
   \<and> nodeEntries (updateCached example_registry example_node example_db) ! 3 =
       example_entry ''e4'' ''n2'' NE_PENDING ''in1''
   \<and> nodeEntries (updateCached example_registry example_node example_db) ! 4 =
     (example_entry ''e5'' ''n1'' NE_PROCESSED ''in5'')
        \<lparr> ne_outputHash := Some ''out5'', ne_originalOutputHash := Some ''old'' \<rparr>"
  using updateCached_cache_hits[where nodePropertiesByType = example_registry
          and node = example_node and matchFields = "[IncomingInputHash]"
          and writeFields = "[OutgoingOutputHash]" and k = 0 and db = example_db]
        updateCached_cache_hits[where nodePropertiesByType = example_registry
          and node = example_node and matchFields = "[IncomingInputHash]"
          and writeFields = "[OutgoingOutputHash]" and k = 1 and db = example_db]
        updateCached_cache_hits[where nodePropertiesByType = example_registry
          and node = example_node and matchFields = "[IncomingInputHash]"
          and writeFields = "[OutgoingOutputHash]" and k = 3 and db = example_db]
        updateCached_cache_hits[where nodePropertiesByType = example_registry
          and node = example_node and matchFields = "[IncomingInputHash]"
          and writeFields = "[OutgoingOutputHash]" and k = 4 and db = example_db]
  by (simp add: example_registry_def example_node_def example_db_def
        example_entry_def example_cached_def llmRelabelProperties_def)

subsection \<open>Kinds without both cache fields\<close>

text \<open>
  Claim C10. When the kind of the node declares only one of \<^verbatim>\<open>cacheMatchFields\<close> and
  \<^verbatim>\<open>cacheWriteFields\<close>, or neither, \<^verbatim>\<open>updateCached\<close> returns the database it was given: no
  statement is executed and every row of every node is as before.
\<close>

theorem updateCached_undeclared:
  assumes "cacheMatchFields (nodePropertiesByType (node_type node)) = None
             \<or> cacheWriteFields (nodePropertiesByType (node_type node)) = None"
  shows "updateCached nodePropertiesByType node db = db"
  using assms by (auto simp: updateCached_def Let_def split: option.splits)

theorem updateCached_undeclared_witness:
  "updateCached matchOnly example_node example_db = example_db
   \<and> updateCached writeOnly example_node example_db = example_db
   \<and> updateCached noCache example_node example_db = example_db"
  using updateCached_undeclared[of matchOnly example_node example_db]
        updateCached_undeclared[of writeOnly example_node example_db]
        updateCached_undeclared[of noCache example_node example_db]
  by (simp add: matchOnly_def writeOnly_def noCache_def)

subsection \<open>beforeProcessing\<close>

lemma beforeProcessing_table:
  "nodeEntries (beforeProcessing skip_node example_db) =
     [example_entry ''e1'' ''n1'' NE_PROCESSED ''in1'',
      example_entry ''e2'' ''n1'' NE_PROCESSED ''in2'',
      example_entry ''e3'' ''n1'' NE_ERROR ''in1'',
      example_entry ''e4'' ''n2'' NE_PENDING ''in1'',
      example_entry ''e5'' ''n1'' NE_PROCESSED ''in5'']"
  by (simp add: beforeProcessing_def skip_node_def example_node_def example_db_def
        example_entry_def)

lemma beforeProcessing_no_skip:
  "relabelLLM node \<noteq> SkipRelabel \<Longrightarrow> beforeProcessing node db = db"
  by (simp add: beforeProcessing_def)

text \<open>
  Claim C8. When the node's \<^verbatim>\<open>relabelLLM\<close> is \<^verbatim>\<open>SkipRelabel\<close>, \<^verbatim>\<open>beforeProcessing\<close> is one
  \<^verbatim>\<open>updateMany\<close>: a row of the node that is PENDING becomes PROCESSED with every other
  column as before, and a row of another node or with another status is not modified. The
  cache table is left alone, and \<^verbatim>\<open>beforeProcessing\<close> neither takes nor calls the row
  transform \<^verbatim>\<open>processEntry\<close>.
\<close>

theorem beforeProcessing_skip:
  assumes "relabelLLM node = SkipRelabel"
    and "k < length (nodeEntries db)"
  shows "length (nodeEntries (beforeProcessing node db)) = length (nodeEntries db)
       \<and> cachedProcessedEntries (beforeProcessing node db) = cachedProcessedEntries db
       \<and> executed (beforeProcessing node db) = Suc (executed db)
       \<and> nodeEntries (beforeProcessing node db) ! k =
           (if ne_nodeId (nodeEntries db ! k) = node_id node
                \<and> ne_status (nodeEntries db ! k) = NE_PENDING
            then (nodeEntries db ! k)\<lparr> ne_status := NE_PROCESSED \<rparr>
            else nodeEntries db ! k)"
  using assms by (simp add: beforeProcessing_def)

theorem beforeProcessing_skip_witness:
  "nodeEntries (beforeProcessing skip_node example_db) ! 0 =
     example_entry ''e1'' ''n1'' NE_PROCESSED ''in1''
   \<and> nodeEntries (beforeProcessing skip_node example_db) ! 2 =
     example_entry ''e3'' ''n1'' NE_ERROR ''in1''
   \<and> nodeEntries (beforeProcessing skip_node example_db) ! 3 =
     example_entry ''e4'' ''n2'' NE_PENDING ''in1''
   \<and> executed (beforeProcessing skip_node example_db) = 1"
  using beforeProcessing_skip[of skip_node 0 example_db]
        beforeProcessing_skip[of skip_node 2 example_db]
        beforeProcessing_skip[of skip_node 3 example_db]
  by (simp add: skip_node_def example_node_def example_db_def example_entry_def)

subsection \<open>processEntry\<close>

text \<open>
  Claim C6, as the specification states it, fails on the transform: when the model call
  succeeds with a completion that has no choice, the result is not PROCESSED but ERROR, with
  the message of the error that the transform itself throws.
\<close>

theorem processEntry_empty_completion_counterexample:
  "processEntry emptyCompletion example_node example_relabel_entry =
     \<lparr> res_nodeEntryId = Some ''e1'', res_status = NE_ERROR, res_output = None,
       res_error = Some ''No completion returned'' \<rparr>"
  by (simp add: processEntry_def completionMessageOf_def example_node_def
        example_relabel_entry_def emptyCompletion_def)

text \<open>
  Claim C6, amended. For a node that relabels with a model: when the model call throws an
  \<^verbatim>\<open>APIError\<close> with status 429, the result has status PENDING and the error's message
  (\<^verbatim>\<open>Rate limited\<close> when it has none), and the entry is not marked ERROR; when it throws
  any other error, the result has status ERROR and the error's message (\<^verbatim>\<open>Unknown error\<close>
  when it has none); when it succeeds and the first choice of the completion carries a
  message, the result has status PROCESSED and that message as output; when it succeeds
  without such a message, the result has status ERROR and the message
  \<^verbatim>\<open>No completion returned\<close>.
\<close>

theorem processEntry_outcomes:
  assumes "relabelLLM node = RelabelModel m"
    and "req = \<lparr> req_model = m, req_messages = entry_messages entry,
                 req_tool_choice = entry_tool_choice entry,
                 req_tools = entry_tools entry,
                 req_response_format = entry_response_format entry \<rparr>"
  shows "(getOpenaiCompletion (node_projectId node) req = Inl (APIError (Some 429) msg) \<longrightarrow>
            processEntry getOpenaiCompletion node entry =
              \<lparr> res_nodeEntryId = None, res_status = NE_PENDING, res_output = None,
                res_error = Some (case msg of None \<Rightarrow> ''Rate limited'' | Some t \<Rightarrow> t) \<rparr>)
       \<and> (getOpenaiCompletion (node_projectId node) req = Inl (APIError st msg)
            \<and> st \<noteq> Some 429 \<longrightarrow>
            processEntry getOpenaiCompletion node entry =
              \<lparr> res_nodeEntryId = Some (entry_id entry), res_status = NE_ERROR,
                res_output = None,
                res_error = Some (case msg of None \<Rightarrow> ''Unknown error'' | Some t \<Rightarrow> t) \<rparr>)
       \<and> (getOpenaiCompletion (node_projectId node) req = Inl (OtherError msg) \<longrightarrow>
            processEntry getOpenaiCompletion node entry =
              \<lparr> res_nodeEntryId = Some (entry_id entry), res_status = NE_ERROR,
                res_output = None,
                res_error = Some (case msg of None \<Rightarrow> ''Unknown error'' | Some t \<Rightarrow> t) \<rparr>)
       \<and> (getOpenaiCompletion (node_projectId node) req = Inr completion
            \<and> choices completion = c # cs \<and> choice_message c = Some out \<longrightarrow>
            processEntry getOpenaiCompletion node entry =
              \<lparr> res_nodeEntryId = None, res_status = NE_PROCESSED, res_output = Some out,
                res_error = None \<rparr>)
       \<and> (getOpenaiCompletion (node_projectId node) req = Inr completion
            \<and> (choices completion = [] \<or> choices completion = c # cs \<and> choice_message c = None)
            \<longrightarrow>
            processEntry getOpenaiCompletion node entry =
              \<lparr> res_nodeEntryId = Some (entry_id entry), res_status = NE_ERROR,
                res_output = None, res_error = Some ''No completion returned'' \<rparr>)"
  using assms by (auto simp: processEntry_def completionMessageOf_def)

theorem processEntry_outcomes_witness:
  "processEntry rateLimited example_node example_relabel_entry =
     \<lparr> res_nodeEntryId = None, res_status = NE_PENDING, res_output = None,
       res_error = Some ''Too many requests'' \<rparr>
   \<and> processEntry serverError example_node example_relabel_entry =
     \<lparr> res_nodeEntryId = Some ''e1'', res_status = NE_ERROR, res_output = None,
       res_error = Some ''Unknown error'' \<rparr>
   \<and> processEntry networkError example_node example_relabel_entry =
     \<lparr> res_nodeEntryId = Some ''e1'', res_status = NE_ERROR, res_output = None,
       res_error = Some ''socket hang up'' \<rparr>
   \<and> processEntry oneChoice example_node example_relabel_entry =
     \<lparr> res_nodeEntryId = None, res_status = NE_PROCESSED, res_output = Some ''relabeled'',
       res_error = None \<rparr>
   \<and> processEntry emptyCompletion example_node example_relabel_entry =
     \<lparr> res_nodeEntryId = Some ''e1'', res_status = NE_ERROR, res_output = None,
       res_error = Some ''No completion returned'' \<rparr>"
  using processEntry_outcomes[where node = example_node and m = "''gpt-4''"
          and req = example_request and entry = example_relabel_entry
          and getOpenaiCompletion = rateLimited and msg = "Some ''Too many requests''"]
        processEntry_outcomes[where node = example_node and m = "''gpt-4''"
          and req = example_request and entry = example_relabel_entry
          and getOpenaiCompletion = serverError and st = "Some 500" and msg = None]
        processEntry_outcomes[where node = example_node and m = "''gpt-4''"
          and req = example_request and entry = example_relabel_entry
          and getOpenaiCompletion = networkError and msg = "Some ''socket hang up''"]
        processEntry_outcomes[where node = example_node and m = "''gpt-4''"
          and req = example_request and entry = example_relabel_entry
          and getOpenaiCompletion = oneChoice
          and completion = "\<lparr> choices = [\<lparr> choice_message = Some ''relabeled'' \<rparr>] \<rparr>"
          and c = "\<lparr> choice_message = Some ''relabeled'' \<rparr>" and cs = "[]"
          and out = "''relabeled''"]
        processEntry_outcomes[where node = example_node and m = "''gpt-4''"
          and req = example_request and entry = example_relabel_entry
          and getOpenaiCompletion = emptyCompletion and completion = "\<lparr> choices = [] \<rparr>"]
  by (simp add: example_node_def example_relabel_entry_def example_request_def
        rateLimited_def serverError_def networkError_def oneChoice_def emptyCompletion_def)

end
